theory Spec2Isabelle
  imports Complex_Main "HOL-Library.Multiset"
begin

section \<open>Exceptions and data frames\<close>

text \<open>
  Every failure the modelled code can see is an instance of Python's \<open>Exception\<close>; the
  handlers of the source are all \<open>except Exception\<close> (or the narrower
  \<open>requests.exceptions.RequestException\<close> followed by \<open>except Exception\<close>), so the
  model keeps one constructor per class the source tells apart or raises itself and one for
  everything else. Console output (\<open>print\<close>) is not modelled: it is not part of any value a
  function returns.
\<close>

datatype exn = ValueError | KeyError | AttributeError | RequestException | OSError | OtherException

text \<open>
  A pandas column is a list of cells; \<open>None\<close> is the missing value (NaN). The cell values
  themselves (dates, prices, volumes) are of an arbitrary type \<open>'v\<close>, and the two numeric
  operations the source applies to them (\<open>/\<close> and \<open>np.log\<close>) are parameters of the model,
  so nothing depends on how floating-point numbers round.

  A frame as a provider hands it over is indexed by a labelled index (the trading day for
  yfinance, the timestamp for Polygon). A frame whose index is the default
  \<open>RangeIndex\<close>, which is what \<open>reset_index\<close> leaves behind, is represented by its
  columns alone.
\<close>

type_synonym 'v series = "'v option list"

type_synonym 'v table = "(string \<times> 'v series) list"

record 'v frame =
  index_name :: "string option"
  index_values :: "'v series"
  columns :: "'v table"

definition then_do :: "exn + 'a \<Rightarrow> ('a \<Rightarrow> exn + 'b) \<Rightarrow> exn + 'b" where
  "then_do r k = (case r of Inl e \<Rightarrow> Inl e | Inr x \<Rightarrow> k x)"

definition labels :: "'v table \<Rightarrow> string list" where
  "labels t = map fst t"

text \<open>\<open>DataFrame.empty\<close>: true when either axis has length 0.\<close>

definition df_empty :: "'v frame \<Rightarrow> bool" where
  "df_empty df = (index_values df = [] \<or> columns df = [])"

text \<open>
  \<open>data.reset_index(inplace=True)\<close>: the index becomes the first column, under its name,
  or under \<open>index\<close> when it has none (\<open>level_0\<close> when \<open>index\<close> is taken); pandas raises
  \<open>ValueError\<close> when a column of that name already exists.
\<close>

definition reset_index :: "'v frame \<Rightarrow> exn + 'v table" where
  "reset_index df =
     (let name = (case index_name df of
                    Some n \<Rightarrow> n
                  | None \<Rightarrow> if ''index'' \<in> set (labels (columns df)) then ''level_0'' else ''index'')
      in if name \<in> set (labels (columns df)) then Inl ValueError
         else Inr ((name, index_values df) # columns df))"

text \<open>
  \<open>data[name]\<close> for a single label: the column of that name; \<open>KeyError\<close> when there is
  none. When the label occurs more than once pandas returns a frame instead of a series,
  and assigning the two-column result of the arithmetic to one column raises
  \<open>ValueError\<close>; the model raises at the read.
\<close>

definition get_column :: "'v table \<Rightarrow> string \<Rightarrow> exn + 'v series" where
  "get_column t name =
     (case filter (\<lambda>c. fst c = name) t of
        [] \<Rightarrow> Inl KeyError
      | [c] \<Rightarrow> Inr (snd c)
      | _ \<Rightarrow> Inl ValueError)"

text \<open>\<open>Series.shift(1)\<close>: every value moves one row down, the first row becomes NaN.\<close>

definition shift1 :: "'v series \<Rightarrow> 'v series" where
  "shift1 s = (if s = [] then [] else None # butlast s)"

text \<open>
  Division of two cells, and of two series of the same frame row by row; NaN in, NaN out.
\<close>

definition cell_div :: "('v \<Rightarrow> 'v \<Rightarrow> 'v) \<Rightarrow> 'v option \<Rightarrow> 'v option \<Rightarrow> 'v option" where
  "cell_div fdiv a b = (case (a, b) of (Some x, Some y) \<Rightarrow> Some (fdiv x y) | _ \<Rightarrow> None)"

definition series_div :: "('v \<Rightarrow> 'v \<Rightarrow> 'v) \<Rightarrow> 'v series \<Rightarrow> 'v series \<Rightarrow> 'v series" where
  "series_div fdiv xs ys = map2 (cell_div fdiv) xs ys"

definition np_log :: "('v \<Rightarrow> 'v) \<Rightarrow> 'v series \<Rightarrow> 'v series" where
  "np_log flog s = map (map_option flog) s"

text \<open>
  \<open>data[name] = s\<close>: an existing column of that name is overwritten in place (every one
  of them when the label is repeated), otherwise the column is appended.
\<close>

definition set_column :: "'v table \<Rightarrow> string \<Rightarrow> 'v series \<Rightarrow> 'v table" where
  "set_column t name s =
     (if name \<in> set (labels t) then map (\<lambda>c. if fst c = name then (name, s) else c) t
      else t @ [(name, s)])"

text \<open>
  \<open>data[[n1, n2, ...]]\<close>: the columns in the order of the selector; a label the frame does
  not have raises \<open>KeyError\<close>, a repeated label yields each of its columns.
\<close>

definition select_columns :: "'v table \<Rightarrow> string list \<Rightarrow> exn + 'v table" where
  "select_columns t names =
     (if \<exists>n \<in> set names. n \<notin> set (labels t) then Inl KeyError
      else Inr (concat (map (\<lambda>n. filter (\<lambda>c. fst c = n) t) names)))"

text \<open>\<open>data.columns = names\<close>: relabels by position; a length mismatch raises \<open>ValueError\<close>.\<close>

definition set_labels :: "'v table \<Rightarrow> string list \<Rightarrow> exn + 'v table" where
  "set_labels t names =
     (if length names \<noteq> length t then Inl ValueError else Inr (zip names (map snd t)))"

section \<open>data\_collection.py: the Yahoo Finance adapter\<close>

definition expected_columns :: "string list" where
  "expected_columns = [''Date'', ''Open'', ''High'', ''Low'', ''Close'', ''Volume'']"

definition yahoo_schema :: "string list" where
  "yahoo_schema = [''DATE'', ''OPEN'', ''HIGH'', ''LOW'', ''CLOSE'', ''VOLUME'', ''LOG_RETURNS'']"

text \<open>
  \<open>np.log(data['Close'] / data['Close'].shift(1))\<close>, the value assigned to the
  \<open>LOG_RETURNS\<close> column.
\<close>

definition log_returns :: "('v \<Rightarrow> 'v \<Rightarrow> 'v) \<Rightarrow> ('v \<Rightarrow> 'v) \<Rightarrow> 'v series \<Rightarrow> 'v series" where
  "log_returns fdiv flog close = np_log flog (series_div fdiv close (shift1 close))"

text \<open>
  The body of the \<open>try\<close> block of \<open>get_yahoo_finance_data\<close>. \<open>yf_download\<close> stands for
  \<open>yf.download(ticker, start=..., end=..., auto_adjust=True, progress=True)\<close>: it either
  raises or returns a frame.
\<close>

definition yahoo_try ::
  "(string \<Rightarrow> string \<Rightarrow> string \<Rightarrow> exn + 'v frame) \<Rightarrow> ('v \<Rightarrow> 'v \<Rightarrow> 'v) \<Rightarrow> ('v \<Rightarrow> 'v) \<Rightarrow>
   string \<Rightarrow> string \<Rightarrow> string \<Rightarrow> exn + 'v table option" where
  "yahoo_try yf_download fdiv flog ticker start_date end_date =
     then_do (yf_download ticker start_date end_date) (\<lambda>data.
       if \<not> df_empty data then
         then_do (reset_index data) (\<lambda>data1.
           let missing_columns = filter (\<lambda>col. col \<notin> set (labels data1)) expected_columns in
           if missing_columns \<noteq> [] then Inl ValueError
           else
             then_do (get_column data1 ''Close'') (\<lambda>close.
               let data2 = set_column data1 ''LOG_RETURNS'' (log_returns fdiv flog close) in
               then_do (select_columns data2
                          [''Date'', ''Open'', ''High'', ''Low'', ''Close'', ''Volume'', ''LOG_RETURNS''])
                 (\<lambda>data3. then_do (set_labels data3 yahoo_schema) (\<lambda>data4. Inr (Some data4)))))
       else Inr None)"

text \<open>The \<open>except Exception\<close> handler turns every exception of the body into \<open>None\<close>.\<close>

definition get_yahoo_finance_data ::
  "(string \<Rightarrow> string \<Rightarrow> string \<Rightarrow> exn + 'v frame) \<Rightarrow> ('v \<Rightarrow> 'v \<Rightarrow> 'v) \<Rightarrow> ('v \<Rightarrow> 'v) \<Rightarrow>
   string \<Rightarrow> string \<Rightarrow> string \<Rightarrow> 'v table option" where
  "get_yahoo_finance_data yf_download fdiv flog ticker start_date end_date =
     (case yahoo_try yf_download fdiv flog ticker start_date end_date of
        Inl e \<Rightarrow> None
      | Inr r \<Rightarrow> r)"

section \<open>driver.py: one task\<close>

definition DATA_DIR :: string where
  "DATA_DIR = ''collected_data''"

text \<open>
  \<open>os.path.join(a, b)\<close> for two components on a POSIX system: an absolute second
  component replaces the first, otherwise the two are joined by one separator.
\<close>

definition path_join :: "string \<Rightarrow> string \<Rightarrow> string" where
  "path_join a b =
     (if b \<noteq> [] \<and> hd b = CHR ''/'' then b
      else if a = [] \<or> last a = CHR ''/'' then a @ b
      else a @ ''/'' @ b)"

text \<open>
  The body of the \<open>try\<close> block of \<open>collect_data_for_ticker\<close>. \<open>fetch\<close> stands for the
  adapter call \<open>dc.get_yahoo_finance_data(ticker, start_date, end_date)\<close> as the task sees
  it: it raises, returns \<open>None\<close> or returns a frame. \<open>to_csv\<close> stands for
  \<open>yahoo_finance_df.to_csv(path, index=True)\<close>: it raises or returns.
\<close>

definition collect_try ::
  "(string \<Rightarrow> string \<Rightarrow> string \<Rightarrow> exn + 'df option) \<Rightarrow> (string \<Rightarrow> 'df \<Rightarrow> exn + unit) \<Rightarrow>
   string \<Rightarrow> string \<Rightarrow> string \<Rightarrow> exn + bool" where
  "collect_try fetch to_csv ticker start_date end_date =
     then_do (fetch ticker start_date end_date) (\<lambda>yahoo_finance_df.
       case yahoo_finance_df of
         Some df \<Rightarrow>
           (let yahoo_finance_file_path = path_join DATA_DIR (ticker @ ''_yahoo_finance.csv'') in
            then_do (to_csv yahoo_finance_file_path df) (\<lambda>_. Inr True))
       | None \<Rightarrow> Inr False)"

text \<open>
  \<open>collect_data_for_ticker\<close>: the \<open>except Exception\<close> handler returns \<open>False\<close>; the
  \<open>finally\<close> clause only sleeps and changes no value. The result is what
  \<open>future.result()\<close> gives the orchestrator: \<open>Inl\<close> an exception that left the task,
  \<open>Inr\<close> the value it returned.
\<close>

definition collect_data_for_ticker ::
  "(string \<Rightarrow> string \<Rightarrow> string \<Rightarrow> exn + 'df option) \<Rightarrow> (string \<Rightarrow> 'df \<Rightarrow> exn + unit) \<Rightarrow>
   string \<Rightarrow> string \<Rightarrow> string \<Rightarrow> exn + bool" where
  "collect_data_for_ticker fetch to_csv ticker start_date end_date =
     (case collect_try fetch to_csv ticker start_date end_date of
        Inl exc \<Rightarrow> Inr False
      | Inr r \<Rightarrow> Inr r)"

text \<open>
  The task as \<open>main\<close> submits it: the adapter is \<open>get_yahoo_finance_data\<close>, which has
  already turned its own exceptions into \<open>None\<close>.
\<close>

definition yahoo_fetch ::
  "(string \<Rightarrow> string \<Rightarrow> string \<Rightarrow> exn + 'v frame) \<Rightarrow> ('v \<Rightarrow> 'v \<Rightarrow> 'v) \<Rightarrow> ('v \<Rightarrow> 'v) \<Rightarrow>
   string \<Rightarrow> string \<Rightarrow> string \<Rightarrow> exn + 'v table option" where
  "yahoo_fetch yf_download fdiv flog ticker start_date end_date =
     Inr (get_yahoo_finance_data yf_download fdiv flog ticker start_date end_date)"

section \<open>driver.py: the worker pool and the orchestrator\<close>

text \<open>
  \<open>ThreadPoolExecutor(max_workers=W)\<close> runs the submitted calls first-in first-out on
  \<open>W\<close> threads. How long a call takes (the network, the random sleep of one to three
  seconds) is outside the program: \<open>dur\<close> gives the duration of each submitted call.
  A future is identified by its position in the order of submission.

  \<open>first_free\<close> is the position of the worker that becomes free first, and
  \<open>finish_times\<close> lets each call in turn start on that worker.
\<close>

fun first_free :: "nat list \<Rightarrow> nat" where
  "first_free [] = 0"
| "first_free [x] = 0"
| "first_free (x # y # ys) =
     (let j = first_free (y # ys) in if x \<le> (y # ys) ! j then 0 else Suc j)"

fun finish_times :: "nat list \<Rightarrow> nat list \<Rightarrow> nat list" where
  "finish_times free [] = []"
| "finish_times free (d # ds) =
     (let w = first_free free; f = free ! w + d in f # finish_times (free[w := f]) ds)"

text \<open>
  \<open>concurrent.futures.as_completed(fs)\<close> yields every future of \<open>fs\<close> once, as it
  finishes: here in the order of the finishing times, futures that finish together in
  the order of submission. CPython yields the futures that have already finished when
  the loop starts in the iteration order of a set, so among such futures the real order
  can differ from this one. The general theorems below use of \<open>as_completed\<close> only
  that it yields each future exactly once; where a concrete run lists its outcomes, the
  order is the order of this model.
\<close>

definition as_completed :: "nat \<Rightarrow> nat list \<Rightarrow> nat list \<Rightarrow> nat list" where
  "as_completed max_workers durs fs =
     (let fin = finish_times (replicate max_workers 0) durs in sort_key (\<lambda>i. fin ! i) fs)"

text \<open>
  The dictionary comprehension of \<open>main\<close>: one \<open>executor.submit\<close> per element of the
  universe, in order, each returning a new future that is the key of the ticker it was
  submitted for.
\<close>

definition submit_all :: "string list \<Rightarrow> (nat \<times> string) list" where
  "submit_all tickers = zip [0..<length tickers] tickers"

text \<open>
  The \<open>for future in as_completed(future_to_ticker)\<close> loop. \<open>result\<close> gives what
  \<open>future.result()\<close> does for each future. A future that is not a key of the dictionary
  raises \<open>KeyError\<close> outside the \<open>try\<close>.
\<close>

fun collect_failed ::
  "(nat \<times> string) list \<Rightarrow> (nat \<Rightarrow> exn + bool) \<Rightarrow> nat list \<Rightarrow> string list \<Rightarrow> exn + string list" where
  "collect_failed future_to_ticker result [] failed_tickers = Inr failed_tickers"
| "collect_failed future_to_ticker result (future # rest) failed_tickers =
     (case map_of future_to_ticker future of
        None \<Rightarrow> Inl KeyError
      | Some ticker \<Rightarrow>
          (case result future of
             Inl exc \<Rightarrow> collect_failed future_to_ticker result rest (failed_tickers @ [ticker])
           | Inr _ \<Rightarrow> collect_failed future_to_ticker result rest failed_tickers))"

text \<open>\<open>"\n".join(xs)\<close>.\<close>

fun join_lines :: "string list \<Rightarrow> string" where
  "join_lines [] = []"
| "join_lines [x] = x"
| "join_lines (x # y # ys) = x @ [CHR 0x0A] @ join_lines (y # ys)"

text \<open>
  What a run leaves behind: the outcome of every future the loop looked at, in the order
  it looked at them (the ticker of the future and what \<open>future.result()\<close> did), the list
  \<open>failed_tickers\<close>, and the manifest file if one was written (its path and its text).
\<close>

record run =
  outcomes :: "(string \<times> (exn + bool)) list"
  failed_tickers :: "string list"
  manifest :: "(string \<times> string) option"

text \<open>
  \<open>main\<close> from the check of the universe on, with the universe, the submitted callable
  and the worker count as parameters. An empty universe returns before the pool is
  made; \<open>ThreadPoolExecutor\<close> raises \<open>ValueError\<close> for a worker count below one.
\<close>

definition run_batch ::
  "(string \<Rightarrow> string \<Rightarrow> string \<Rightarrow> exn + bool) \<Rightarrow> string list \<Rightarrow> string \<Rightarrow> string \<Rightarrow> int \<Rightarrow>
   (nat \<Rightarrow> nat) \<Rightarrow> exn + run" where
  "run_batch task tickers start_date end_date max_workers dur =
     (if tickers = [] then Inr \<lparr>outcomes = [], failed_tickers = [], manifest = None\<rparr>
      else if max_workers \<le> 0 then Inl ValueError
      else
        let future_to_ticker = submit_all tickers;
            result = (\<lambda>future. task (tickers ! future) start_date end_date);
            futures = map fst future_to_ticker;
            done_order = as_completed (nat max_workers) (map dur futures) futures
        in then_do (collect_failed future_to_ticker result done_order []) (\<lambda>failed.
             Inr \<lparr>outcomes = map (\<lambda>future. (tickers ! future, result future)) done_order,
                  failed_tickers = failed,
                  manifest = (if failed \<noteq> []
                              then Some (path_join DATA_DIR ''failed_tickers.txt'', join_lines failed)
                              else None)\<rparr>))"

text \<open>
  The order in which the loop of \<open>main\<close> sees the futures of a universe of \<open>n\<close> tickers
  run on \<open>W\<close> workers.
\<close>

definition done_order :: "int \<Rightarrow> (nat \<Rightarrow> nat) \<Rightarrow> nat \<Rightarrow> nat list" where
  "done_order W dur n = as_completed (nat W) (map dur [0..<n]) [0..<n]"

text \<open>The hardcoded universe of the source, repeated symbols included.\<close>

definition SP500_TICKERS :: "string list" where
  "SP500_TICKERS = [
    ''MMM'', ''AOS'', ''ABT'', ''ABBV'', ''ACN'', ''ADBE'', ''AMD'', ''AES'', ''AFL'', ''A'',
    ''APD'', ''ABNB'', ''AKAM'', ''ALB'', ''ARE'', ''ALGN'', ''ALLE'', ''LNT'', ''ALL'',
    ''GOOGL'', ''GOOG'', ''MO'', ''AMZN'', ''AMCR'', ''AEE'', ''AEP'', ''AXP'', ''AIG'',
    ''AMT'', ''AWK'', ''AMP'', ''AME'', ''AMGN'', ''APH'', ''ADI'', ''ANSS'', ''AON'', ''APA'',
    ''APO'', ''AAPL'', ''AMAT'', ''APTV'', ''ARCH'', ''ARNC'', ''ATO'', ''ATVI'', ''ADSK'',
    ''AZO'', ''AVB'', ''AVY'', ''BKR'', ''BAX'', ''BDX'', ''BRK.B'', ''BBY'', ''BIO'',
    ''BIIB'', ''BLK'', ''BX'', ''BAC'', ''BBWI'', ''BA'', ''BK'', ''BN'', ''BXP'', ''BSX'',
    ''BMY'', ''AVGO'', ''BR'', ''BRO'', ''BF.B'', ''BF.A'', ''CPB'', ''COF'', ''CAH'', ''KMX'',
    ''CCL'', ''CARR'', ''CAT'', ''CBOE'', ''CDNS'', ''CDW'', ''CE'', ''CNC'', ''CNP'',
    ''CDAY'', ''CERN'', ''CF'', ''CRL'', ''SCHW'', ''CHTR'', ''CVX'', ''CMG'', ''CB'', ''CHD'',
    ''CI'', ''CINF'', ''CTAS'', ''C'', ''CLX'', ''CME'', ''CMS'', ''KO'', ''CTSH'', ''CL'',
    ''CMCSA'', ''CAG'', ''COP'', ''STZ'', ''CEG'', ''COR'', ''CSGP'', ''CMA'', ''CSC'',
    ''CMCSA'', ''CACC'', ''CSX'', ''CTLT'', ''CVS'', ''DHR'', ''DRI'', ''DVA'', ''DE'',
    ''DAL'', ''XRAY'', ''DVN'', ''DXCM'', ''FANG'', ''DLR'', ''DFS'', ''DIS'', ''DG'',
    ''DLTR'', ''D'', ''DPZ'', ''DOV'', ''DOW'', ''DTE'', ''DUK'', ''DD'', ''EMN'', ''ETN'',
    ''EBAY'', ''ECL'', ''EIX'', ''EW'', ''EA'', ''EMR'', ''ENPH'', ''ETR'', ''EOG'', ''EQIX'',
    ''EQT'', ''ES'', ''ESS'', ''ELV'', ''ETSY'', ''EVRG'', ''ESRX'', ''EXC'', ''EXPE'',
    ''EXPD'', ''XOM'', ''FDS'', ''FAST'', ''FRT'', ''FDX'', ''FE'', ''FIS'', ''FITB'', ''FMC'',
    ''F'', ''FTNT'', ''FTV'', ''FOXA'', ''FOX'', ''BEN'', ''FCX'', ''GRMN'', ''IT'', ''GD'',
    ''GE'', ''GIS'', ''GM'', ''GPC'', ''GILD'', ''GLW'', ''GOOG'', ''GOOGL'', ''GPN'', ''GPS'',
    ''GRMN'', ''GS'', ''HAL'', ''HBI'', ''HAS'', ''HCA'', ''PEAK'', ''HSIC'', ''HES'', ''HWM'',
    ''HP'', ''HST'', ''HRL'', ''HLT'', ''HOLX'', ''HD'', ''HON'', ''HPE'', ''HPQ'', ''HUM'',
    ''HII'', ''IBM'', ''IEX'', ''IDXX'', ''IFF'', ''ILMN'', ''INCY'', ''IR'', ''INTC'',
    ''ICE'', ''IBM'', ''IP'', ''IPG'', ''INTU'', ''ISRG'', ''IVZ'', ''IRM'', ''JBL'', ''JKHY'',
    ''J'', ''JPM'', ''JNJ'', ''KSU'', ''K'', ''KVUE'', ''KMB'', ''KMI'', ''KLAC'', ''KSS'',
    ''KR'', ''LHX'', ''LRCX'', ''LW'', ''LVS'', ''LEG'', ''LEN'', ''LLY'', ''LNC'', ''LIN'',
    ''LYV'', ''LKQ'', ''LMT'', ''L'', ''LOW'', ''LULU'', ''MAR'', ''MMC'', ''MLM'', ''MAS'',
    ''MA'', ''MKC'', ''MCD'', ''MCK'', ''MDT'', ''MRK'', ''META'', ''MET'', ''MIK'', ''MSFT'',
    ''MCO'', ''MPC'', ''MDLZ'', ''MNST'', ''MORG'', ''MSI'', ''MS'', ''MOS'', ''MSCI'',
    ''NDAQ'', ''NEE'', ''NEM'', ''NFLX'', ''NWSA'', ''NWS'', ''NI'', ''NKE'', ''NOC'',
    ''NLOK'', ''NCLH'', ''NRG'', ''NUE'', ''NVDA'', ''NVR'', ''NXPI'', ''ORLY'', ''OXY'',
    ''ODFL'', ''OMC'', ''OKE'', ''ORCL'', ''OGN'', ''OTIS'', ''PCAR'', ''PKG'', ''PANW'',
    ''PARA'', ''PAYC'', ''PAYX'', ''PCG'', ''PEP'', ''PFE'', ''PM'', ''PSX'', ''PNR'',
    ''PBCT'', ''PGR'', ''PLD'', ''PNC'', ''POOL'', ''PPG'', ''PPL'', ''PFG'', ''PG'', ''PGR'',
    ''PRU'', ''PEG'', ''PSA'', ''PHM'', ''PVH'', ''QRVO'', ''PWR'', ''QCOM'', ''DGX'', ''RL'',
    ''RJF'', ''RTX'', ''O'', ''REGN'', ''RF'', ''RSG'', ''RMD'', ''RHI'', ''ROK'', ''ROL'',
    ''ROP'', ''ROST'', ''RCL'', ''SPGI'', ''CRM'', ''SBAC'', ''SLB'', ''STX'', ''SEE'',
    ''SRE'', ''NOW'', ''SHW'', ''SPG'', ''SWKS'', ''SJM'', ''SNA'', ''SO'', ''LUV'', ''SWK'',
    ''SBUX'', ''STT'', ''STE'', ''SYK'', ''SYF'', ''SNPS'', ''SYY'', ''TMUS'', ''TROW'',
    ''TTWO'', ''TPR'', ''TGT'', ''TEL'', ''TDY'', ''TFX'', ''TXN'', ''TXT'', ''TMO'', ''TJX'',
    ''TSLA'', ''TXN'', ''TMO'', ''TJX'', ''TSLA'', ''TRV'', ''TRMB'', ''TFC'', ''TWTR'',
    ''TYL'', ''UDR'', ''ULTA'', ''UNP'', ''UAL'', ''UNH'', ''UPS'', ''URI'', ''UHS'', ''VLO'',
    ''VAR'', ''VTR'', ''VRSK'', ''VRSN'', ''V'', ''VNO'', ''VMC'', ''WAB'', ''WBA'', ''WMT'',
    ''WBD'', ''WM'', ''WAT'', ''WEC'', ''WFC'', ''WELL'', ''WST'', ''WDC'', ''WRK'', ''WY'',
    ''WHR'', ''WMB'', ''WLTW'', ''WYNN'', ''XEL'', ''XLNX'', ''XYL'', ''YUM'', ''ZBH'',
    ''ZION'', ''ZTS'']"

text \<open>
  \<open>main\<close> itself: the universe is \<open>SP500_TICKERS\<close> and the callable is
  \<open>collect_data_for_ticker\<close> on the Yahoo Finance adapter.
\<close>

definition main ::
  "(string \<Rightarrow> string \<Rightarrow> string \<Rightarrow> exn + 'v frame) \<Rightarrow> ('v \<Rightarrow> 'v \<Rightarrow> 'v) \<Rightarrow> ('v \<Rightarrow> 'v) \<Rightarrow>
   (string \<Rightarrow> 'v table \<Rightarrow> exn + unit) \<Rightarrow> string \<Rightarrow> string \<Rightarrow> int \<Rightarrow> (nat \<Rightarrow> nat) \<Rightarrow> exn + run" where
  "main yf_download fdiv flog to_csv start_date end_date max_workers dur =
     run_batch (collect_data_for_ticker (yahoo_fetch yf_download fdiv flog) to_csv)
       SP500_TICKERS start_date end_date max_workers dur"

section \<open>data\_collection.py: the Polygon adapter\<close>

text \<open>
  What \<open>requests.get\<close> returns: the status code and, when the body is JSON, the decoded
  payload. The payload is a JSON object with an optional \<open>status\<close> string and an optional
  \<open>results\<close> list of objects (each a list of key and value, \<open>None\<close> for \<open>null\<close>), or it is
  not an object at all.
\<close>

type_synonym 'v item = "(string \<times> 'v option) list"

datatype 'v payload = NonObject | Object "string option" "'v item list option"

record 'v response =
  status_code :: nat
  json_body :: "'v payload option"

text \<open>\<open>response.raise_for_status()\<close>: \<open>HTTPError\<close>, a \<open>RequestException\<close>, for 4xx and 5xx.\<close>

definition raise_for_status :: "'v response \<Rightarrow> exn + unit" where
  "raise_for_status r =
     (if 400 \<le> status_code r \<and> status_code r < 600 then Inl RequestException else Inr ())"

text \<open>\<open>response.json()\<close>: a body that is not JSON raises \<open>JSONDecodeError\<close>.\<close>

definition response_json :: "'v response \<Rightarrow> exn + 'v payload" where
  "response_json r = (case json_body r of None \<Rightarrow> Inl RequestException | Some d \<Rightarrow> Inr d)"

text \<open>\<open>data.get(key)\<close>; a payload that is not a dictionary has no \<open>get\<close>.\<close>

definition get_results :: "'v payload \<Rightarrow> exn + 'v item list option" where
  "get_results d = (case d of NonObject \<Rightarrow> Inl AttributeError | Object st rs \<Rightarrow> Inr rs)"

definition get_status :: "'v payload \<Rightarrow> exn + string option" where
  "get_status d = (case d of NonObject \<Rightarrow> Inl AttributeError | Object st rs \<Rightarrow> Inr st)"

text \<open>
  Python's truth value of \<open>data.get('results')\<close>: a list that is there and not empty
  (the first branch of \<open>get_polygon_data\<close> matches exactly that shape).
\<close>

definition truthy :: "'a list option \<Rightarrow> bool" where
  "truthy r = (case r of None \<Rightarrow> False | Some xs \<Rightarrow> xs \<noteq> [])"

text \<open>
  \<open>pd.DataFrame(list_of_dicts)\<close>: one column per key, in the order in which the keys
  first appear, one row per dictionary, NaN where a dictionary lacks the key.
\<close>

definition first_seen :: "'a list \<Rightarrow> 'a list" where
  "first_seen xs = rev (remdups (rev xs))"

definition DataFrame :: "'v item list \<Rightarrow> 'v table" where
  "DataFrame rows =
     map (\<lambda>k. (k, map (\<lambda>row. case map_of row k of None \<Rightarrow> None | Some v \<Rightarrow> v) rows))
       (first_seen (concat (map (map fst) rows)))"

text \<open>\<open>df.rename(columns=mapping)\<close>: every label the mapping knows is replaced.\<close>

definition rename_label :: "(string \<times> string) list \<Rightarrow> string \<Rightarrow> string" where
  "rename_label mapping k = (case map_of mapping k of None \<Rightarrow> k | Some n \<Rightarrow> n)"

definition rename_columns :: "(string \<times> string) list \<Rightarrow> 'v table \<Rightarrow> 'v table" where
  "rename_columns mapping t = map (\<lambda>c. (rename_label mapping (fst c), snd c)) t"

definition polygon_renames :: "(string \<times> string) list" where
  "polygon_renames =
     [(''o'', ''Open''), (''h'', ''High''), (''l'', ''Low''), (''c'', ''Close''), (''v'', ''Volume''),
      (''t'', ''Timestamp''), (''n'', ''Transactions'')]"

text \<open>\<open>df.set_index(name)\<close>: the column leaves the columns and becomes the index.\<close>

definition set_index :: "'v table \<Rightarrow> string \<Rightarrow> exn + 'v frame" where
  "set_index t name =
     then_do (get_column t name) (\<lambda>s.
       Inr \<lparr>index_name = Some name, index_values = s,
            columns = filter (\<lambda>c. fst c \<noteq> name) t\<rparr>)"

definition polygon_schema :: "string list" where
  "polygon_schema = [''Open'', ''High'', ''Low'', ''Close'', ''Volume'']"

text \<open>
  The body of the \<open>try\<close> block of \<open>get_polygon_data\<close>. \<open>requests_get\<close> stands for
  \<open>requests.get(url, params=params)\<close>, as a function of what the URL and the parameters
  are built from; \<open>to_datetime\<close> stands for \<open>pd.to_datetime(..., unit='ms')\<close>, which
  raises on a value it cannot convert. All three branches of the source's
  \<open>if\<close>/\<open>elif\<close>/\<open>else\<close> are kept, although the last cannot be reached.
\<close>

definition polygon_try ::
  "(string \<Rightarrow> string \<Rightarrow> string \<Rightarrow> string \<Rightarrow> int \<Rightarrow> string \<Rightarrow> exn + 'v response) \<Rightarrow>
   ('v series \<Rightarrow> exn + 'v series) \<Rightarrow>
   string \<Rightarrow> string \<Rightarrow> string \<Rightarrow> string \<Rightarrow> int \<Rightarrow> string \<Rightarrow> exn + 'v frame option" where
  "polygon_try requests_get to_datetime ticker start_date end_date api_key multiplier timespan =
     then_do (requests_get ticker start_date end_date api_key multiplier timespan) (\<lambda>response.
     then_do (raise_for_status response) (\<lambda>_.
     then_do (response_json response) (\<lambda>data.
     then_do (get_results data) (\<lambda>results.
       case results of
         Some (r # rs) \<Rightarrow>
           (let df = DataFrame (r # rs);
                df1 = rename_columns polygon_renames df
            in then_do (get_column df1 ''Timestamp'') (\<lambda>ts.
               then_do (to_datetime ts) (\<lambda>ts1.
               then_do (set_index (set_column df1 ''Timestamp'' ts1) ''Timestamp'') (\<lambda>df2.
               then_do (select_columns (columns df2) polygon_schema) (\<lambda>cols.
                 Inr (Some (df2\<lparr>columns := cols\<rparr>)))))))
       | _ \<Rightarrow>
           then_do (get_status data) (\<lambda>status.
             if status = Some ''NOT_FOUND'' \<or> \<not> truthy results then Inr None
             else Inr None)))))"

text \<open>
  Both handlers (\<open>except requests.exceptions.RequestException\<close> and
  \<open>except Exception\<close>) return \<open>None\<close>.
\<close>

definition get_polygon_data ::
  "(string \<Rightarrow> string \<Rightarrow> string \<Rightarrow> string \<Rightarrow> int \<Rightarrow> string \<Rightarrow> exn + 'v response) \<Rightarrow>
   ('v series \<Rightarrow> exn + 'v series) \<Rightarrow>
   string \<Rightarrow> string \<Rightarrow> string \<Rightarrow> string \<Rightarrow> int \<Rightarrow> string \<Rightarrow> 'v frame option" where
  "get_polygon_data requests_get to_datetime ticker start_date end_date api_key multiplier timespan =
     (case polygon_try requests_get to_datetime ticker start_date end_date api_key multiplier timespan of
        Inl RequestException \<Rightarrow> None
      | Inl e \<Rightarrow> None
      | Inr r \<Rightarrow> r)"

section \<open>visualizations.py: the portfolio value\<close>

text \<open>
  A row of the trade ledger. Dates are points on a time line (integers). Money amounts
  are Python floats: they are values of an arbitrary type \<open>'m\<close>, and the float addition
  the loop applies to them is a parameter \<open>fadd\<close> of the model, so nothing depends on
  how it rounds. Only the three columns \<open>calculate_portfolio_value\<close> reads decide its
  result, the others are carried along.
\<close>

record 'm trade =
  Ticker :: string
  Entry_Date :: int
  Exit_Date :: int
  Entry_Price :: 'm
  Exit_Price :: 'm
  PL_pct :: 'm
  PL_dollars :: 'm

text \<open>
  The \<open>for _, row in df.iterrows()\<close> loop: the running capital and the two lists,
  here one list of (date, value) pairs.
\<close>

fun portfolio_loop ::
  "('m \<Rightarrow> 'm \<Rightarrow> 'm) \<Rightarrow> 'm trade list \<Rightarrow> 'm \<Rightarrow> (int \<times> 'm) list \<Rightarrow> (int \<times> 'm) list" where
  "portfolio_loop fadd [] current_capital points = points"
| "portfolio_loop fadd (row # rows) current_capital points =
     (let current_capital' = fadd current_capital (PL_dollars row)
      in portfolio_loop fadd rows current_capital' (points @ [(Exit_Date row, current_capital')]))"

text \<open>The points as they stand before the final \<open>sort_values\<close>.\<close>

definition portfolio_points ::
  "('m \<Rightarrow> 'm \<Rightarrow> 'm) \<Rightarrow> 'm trade list \<Rightarrow> 'm \<Rightarrow> (int \<times> 'm) list" where
  "portfolio_points fadd df initial_capital =
     (let first_trade_date = Min (set (map Entry_Date df))
      in portfolio_loop fadd df initial_capital [(first_trade_date, initial_capital)])"

text \<open>
  \<open>calculate_portfolio_value\<close>. The result of \<open>sort_values(by='DATE')\<close> is modelled by a
  stable sort; pandas does not promise the order of rows with the same date, so the
  model says what the code returns only where the dates of the points differ from one
  another.
\<close>

definition calculate_portfolio_value ::
  "('m \<Rightarrow> 'm \<Rightarrow> 'm) \<Rightarrow> 'm trade list \<Rightarrow> 'm \<Rightarrow> (int \<times> 'm) list" where
  "calculate_portfolio_value fadd df initial_capital =
     (if df = [] then []
      else sort_key fst (portfolio_points fadd df initial_capital))"

section \<open>Scenarios\<close>

text \<open>
  A deterministic provider for concrete runs: three trading days for every ticker but
  \<open>BADTICKER\<close>, for which it has no rows; writing a file always succeeds.
\<close>

definition scenario_frame :: "real frame" where
  "scenario_frame =
     \<lparr>index_name = Some ''Date'', index_values = [Some 1, Some 2, Some 3],
      columns = [(''Close'', [Some 100, Some 110, Some 99]),
                 (''High'', [Some 101, Some 111, Some 112]),
                 (''Low'', [Some 99, Some 100, Some 98]),
                 (''Open'', [Some 100, Some 101, Some 110]),
                 (''Volume'', [Some 5000, Some 6000, Some 7000])]\<rparr>"

definition scenario_download :: "string \<Rightarrow> string \<Rightarrow> string \<Rightarrow> exn + real frame" where
  "scenario_download ticker start_date end_date =
     (if ticker = ''BADTICKER'' then Inr (scenario_frame\<lparr>index_values := [], columns := []\<rparr>)
      else Inr scenario_frame)"

definition scenario_to_csv :: "string \<Rightarrow> real table \<Rightarrow> exn + unit" where
  "scenario_to_csv path df = Inr ()"

definition scenario_task :: "string \<Rightarrow> string \<Rightarrow> string \<Rightarrow> exn + bool" where
  "scenario_task = collect_data_for_ticker (yahoo_fetch scenario_download (/) ln) scenario_to_csv"

text \<open>A provider that is down, and one whose frame lacks the \<open>Volume\<close> column.\<close>

definition failing_download :: "string \<Rightarrow> string \<Rightarrow> string \<Rightarrow> exn + real frame" where
  "failing_download ticker start_date end_date = Inl RequestException"

definition short_download :: "string \<Rightarrow> string \<Rightarrow> string \<Rightarrow> exn + real frame" where
  "short_download ticker start_date end_date =
     Inr (scenario_frame\<lparr>columns := filter (\<lambda>c. fst c \<noteq> ''Volume'') (columns scenario_frame)\<rparr>)"

text \<open>
  An adapter as a task may meet it: data for \<open>AAPL\<close>, \<open>None\<close> for \<open>BADTICKER\<close>, an
  exception for every other ticker; and a disk on which the file of \<open>MSFT\<close> cannot be
  written.
\<close>

definition flaky_fetch :: "string \<Rightarrow> string \<Rightarrow> string \<Rightarrow> exn + real table option" where
  "flaky_fetch ticker start_date end_date =
     (if ticker = ''AAPL'' \<or> ticker = ''MSFT'' then Inr (Some [(''DATE'', [Some 1])])
      else if ticker = ''BADTICKER'' then Inr None
      else Inl OtherException)"

definition full_disk_to_csv :: "string \<Rightarrow> real table \<Rightarrow> exn + unit" where
  "full_disk_to_csv path df =
     (if path = ''collected_data/MSFT_yahoo_finance.csv'' then Inl OSError else Inr ())"

text \<open>
  A Polygon response with two daily bars under Polygon's keys; every timestamp converts.
\<close>

definition scenario_requests_get ::
  "string \<Rightarrow> string \<Rightarrow> string \<Rightarrow> string \<Rightarrow> int \<Rightarrow> string \<Rightarrow> exn + real response" where
  "scenario_requests_get ticker start_date end_date api_key multiplier timespan =
     Inr \<lparr>status_code = 200,
          json_body = Some (Object (Some ''OK'') (Some
            [[(''v'', Some 5000), (''vw'', Some 100.5), (''o'', Some 100), (''c'', Some 100),
              (''h'', Some 101), (''l'', Some 99), (''t'', Some 1672722000000), (''n'', Some 42)],
             [(''v'', Some 6000), (''vw'', Some 105.5), (''o'', Some 101), (''c'', Some 110),
              (''h'', Some 111), (''l'', Some 100), (''t'', Some 1672808400000), (''n'', Some 57)]]))\<rparr>"

definition scenario_to_datetime :: "real series \<Rightarrow> exn + real series" where
  "scenario_to_datetime ts = Inr ts"

text \<open>
  A response whose one bar carries both the key \<open>o\<close> and the key \<open>Open\<close>, which the
  renaming maps to the same label.
\<close>

definition colliding_requests_get ::
  "string \<Rightarrow> string \<Rightarrow> string \<Rightarrow> string \<Rightarrow> int \<Rightarrow> string \<Rightarrow> exn + real response" where
  "colliding_requests_get ticker start_date end_date api_key multiplier timespan =
     Inr \<lparr>status_code = 200,
          json_body = Some (Object (Some ''OK'') (Some
            [[(''v'', Some 5000), (''o'', Some 100), (''Open'', Some 100), (''c'', Some 100),
              (''h'', Some 101), (''l'', Some 99), (''t'', Some 1672722000000)]]))\<rparr>"

text \<open>What the two adapters return for \<open>AAPL\<close> from these providers.\<close>

definition scenario_yahoo_table :: "real table" where
  "scenario_yahoo_table =
     [(''DATE'', [Some 1, Some 2, Some 3]), (''OPEN'', [Some 100, Some 101, Some 110]),
      (''HIGH'', [Some 101, Some 111, Some 112]), (''LOW'', [Some 99, Some 100, Some 98]),
      (''CLOSE'', [Some 100, Some 110, Some 99]), (''VOLUME'', [Some 5000, Some 6000, Some 7000]),
      (''LOG_RETURNS'', [None, Some (ln (110 / 100)), Some (ln (99 / 110))])]"

definition scenario_polygon_frame :: "real frame" where
  "scenario_polygon_frame =
     \<lparr>index_name = Some ''Timestamp'',
      index_values = [Some 1672722000000, Some 1672808400000],
      columns = [(''Open'', [Some 100, Some 101]), (''High'', [Some 101, Some 111]),
                 (''Low'', [Some 99, Some 100]), (''Close'', [Some 100, Some 110]),
                 (''Volume'', [Some 5000, Some 6000])]\<rparr>"

text \<open>
  A ledger of two trades, in the order of their entry dates as
  \<open>load_and_process_ledger\<close> leaves them; the first trade is still open when the second
  is closed.
\<close>

definition overlapping_ledger :: "real trade list" where
  "overlapping_ledger =
     [\<lparr>Ticker = ''AAPL'', Entry_Date = 1, Exit_Date = 10, Entry_Price = 100, Exit_Price = 105,
       PL_pct = 0.05, PL_dollars = 5\<rparr>,
      \<lparr>Ticker = ''MSFT'', Entry_Date = 2, Exit_Date = 3, Entry_Price = 140, Exit_Price = 147,
       PL_pct = 0.05, PL_dollars = 7\<rparr>]"

text \<open>
  The manifest as the specification words it, for comparison with what \<open>run_batch\<close>
  writes: the tickers whose task did not succeed, in the order of the universe, one per
  line; no file when there is none.
\<close>

definition spec_manifest ::
  "(string \<Rightarrow> string \<Rightarrow> string \<Rightarrow> exn + bool) \<Rightarrow> string list \<Rightarrow> string \<Rightarrow> string \<Rightarrow>
   (string \<times> string) option" where
  "spec_manifest task tickers start_date end_date =
     (let failed = filter (\<lambda>t. task t start_date end_date \<noteq> Inr True) tickers
      in if failed = [] then None
         else Some (path_join DATA_DIR ''failed_tickers.txt'', join_lines failed))"

section \<open>Basic facts\<close>

lemma then_do_Inr_iff:
  "then_do r k = Inr y \<longleftrightarrow> (\<exists>x. r = Inr x \<and> k x = Inr y)"
  by (cases r) (simp_all add: then_do_def)

section \<open>The orchestrator: what a run returns\<close>

lemma mset_as_completed: "mset (as_completed W durs fs) = mset fs"
  by (simp add: as_completed_def Let_def)

lemma map_of_submit_all:
  "i < length tickers \<Longrightarrow> map_of (submit_all tickers) i = Some (tickers ! i)"
  unfolding submit_all_def
  using map_of_zip_nth [of "[0..<length tickers]" tickers i] by simp

lemma futures_submit_all: "map fst (submit_all tickers) = [0..<length tickers]"
  by (simp add: submit_all_def)

lemma collect_failed_eq:
  "set order \<subseteq> {0..<length tickers} \<Longrightarrow>
   collect_failed (submit_all tickers) result order failed =
     Inr (failed @ map (\<lambda>i. tickers ! i) (filter (\<lambda>i. isl (result i)) order))"
proof (induction order arbitrary: failed)
  case Nil
  then show ?case by simp
next
  case (Cons i order)
  then have "i < length tickers" by simp
  then have "map_of (submit_all tickers) i = Some (tickers ! i)" by (rule map_of_submit_all)
  with Cons show ?case by (cases "result i") simp_all
qed

lemma mset_done_order: "mset (done_order W dur n) = mset [0..<n]"
  by (simp add: done_order_def mset_as_completed)

lemma set_done_order: "set (done_order W dur n) = {0..<n}"
  using mset_done_order [of W dur n, THEN mset_eq_setD] by simp

lemma run_batch_eq:
  assumes "tickers \<noteq> []" and "1 \<le> W"
  shows "run_batch task tickers s e W dur =
     (let order = done_order W dur (length tickers);
          failed = map (\<lambda>i. tickers ! i) (filter (\<lambda>i. isl (task (tickers ! i) s e)) order)
      in Inr \<lparr>outcomes = map (\<lambda>i. (tickers ! i, task (tickers ! i) s e)) order,
              failed_tickers = failed,
              manifest = (if failed \<noteq> []
                          then Some (path_join DATA_DIR ''failed_tickers.txt'', join_lines failed)
                          else None)\<rparr>)"
proof -
  let ?order = "done_order W dur (length tickers)"
  have sub: "set ?order \<subseteq> {0..<length tickers}"
    by (simp add: set_done_order)
  have ord: "as_completed (nat W) (map dur (map fst (submit_all tickers)))
               (map fst (submit_all tickers)) = ?order"
    by (simp only: futures_submit_all done_order_def)
  have "\<not> W \<le> 0" using assms(2) by simp
  then show ?thesis
    unfolding run_batch_def Let_def ord
    by (simp only: assms(1) if_False collect_failed_eq [OF sub] then_do_def sum.case append_Nil)
qed

lemma run_batch_Inr_cases:
  assumes "run_batch task U s e W dur = Inr r"
  shows "U = [] \<or> 1 \<le> W"
  using assms by (auto simp: run_batch_def split: if_splits)

text \<open>Every run that returns has the same shape, the empty universe included.\<close>

lemma run_batch_shape:
  assumes "run_batch task U s e W dur = Inr r"
  shows "outcomes r = map (\<lambda>i. (U ! i, task (U ! i) s e)) (done_order W dur (length U))"
    and "failed_tickers r = map fst (filter (\<lambda>p. isl (snd p)) (outcomes r))"
    and "manifest r = (if failed_tickers r \<noteq> []
                       then Some (path_join DATA_DIR ''failed_tickers.txt'', join_lines (failed_tickers r))
                       else None)"
proof -
  have e: "done_order W dur 0 = []"
    by (simp add: done_order_def as_completed_def)
  have "outcomes r = map (\<lambda>i. (U ! i, task (U ! i) s e)) (done_order W dur (length U)) \<and>
        failed_tickers r = map fst (filter (\<lambda>p. isl (snd p)) (outcomes r)) \<and>
        manifest r = (if failed_tickers r \<noteq> []
                       then Some (path_join DATA_DIR ''failed_tickers.txt'', join_lines (failed_tickers r))
                       else None)"
  proof (cases "U = []")
    case True
    with assms e show ?thesis by (auto simp: run_batch_def)
  next
    case False
    with assms have "1 \<le> W" using run_batch_Inr_cases by blast
    from assms [unfolded run_batch_eq [OF False this] Let_def]
    show ?thesis by (auto simp: filter_map comp_def)
  qed
  then show "outcomes r = map (\<lambda>i. (U ! i, task (U ! i) s e)) (done_order W dur (length U))"
    and "failed_tickers r = map fst (filter (\<lambda>p. isl (snd p)) (outcomes r))"
    and "manifest r = (if failed_tickers r \<noteq> []
                       then Some (path_join DATA_DIR ''failed_tickers.txt'', join_lines (failed_tickers r))
                       else None)"
    by simp_all
qed

lemma run_batch_returns:
  assumes "1 \<le> W"
  shows "\<exists>r. run_batch task U s e W dur = Inr r"
proof (cases "U = []")
  case True
  then show ?thesis by (simp add: run_batch_def)
next
  case False
  show ?thesis by (simp add: run_batch_eq [OF False assms] Let_def)
qed

lemma mset_map_done_order:
  "mset (map (\<lambda>i. f (tickers ! i)) (done_order W dur (length tickers))) = mset (map f tickers)"
proof -
  have "mset (map (\<lambda>i. f (tickers ! i)) (done_order W dur (length tickers)))
        = image_mset (\<lambda>i. f (tickers ! i)) (mset [0..<length tickers])"
    by (simp only: mset_map mset_done_order)
  also have "\<dots> = mset (map (\<lambda>i. f (tickers ! i)) [0..<length tickers])"
    by (simp only: mset_map)
  also have "map (\<lambda>i. f (tickers ! i)) [0..<length tickers] = map f tickers"
    by (rule nth_equalityI) simp_all
  finally show ?thesis .
qed

lemma run_batch_outcomes:
  assumes "run_batch task U s e W dur = Inr r"
  shows "mset (outcomes r) = mset (map (\<lambda>t. (t, task t s e)) U)"
  using mset_map_done_order [of "\<lambda>t. (t, task t s e)" U W dur]
  by (simp add: run_batch_shape(1) [OF assms])

lemma collect_data_for_ticker_eq:
  "collect_data_for_ticker fetch to_csv t s e =
     Inr (\<exists>df. fetch t s e = Inr (Some df) \<and>
               to_csv (path_join DATA_DIR (t @ ''_yahoo_finance.csv'')) df = Inr ())"
  by (auto simp: collect_data_for_ticker_def collect_try_def then_do_def Let_def
      split: sum.splits option.splits)

lemma scenario_task_eq: "scenario_task t s e = Inr (t \<noteq> ''BADTICKER'')"
  by (simp add: scenario_task_def collect_data_for_ticker_eq yahoo_fetch_def
      get_yahoo_finance_data_def yahoo_try_def then_do_def df_empty_def reset_index_def
      labels_def expected_columns_def get_column_def set_column_def select_columns_def 
      set_labels_def yahoo_schema_def scenario_download_def scenario_frame_def scenario_to_csv_def)

lemma path_join_DATA_DIR:
  "path_join DATA_DIR (c # cs) = (if c = CHR ''/'' then c # cs else ''collected_data/'' @ c # cs)"
  by (simp add: path_join_def DATA_DIR_def)

lemma SP500_TICKERS_CMCSA: "count_list SP500_TICKERS ''CMCSA'' = 2"
  by code_simp

lemma length_SP500_TICKERS: "length SP500_TICKERS = 433"
  by (simp add: SP500_TICKERS_def)

section \<open>The Yahoo Finance adapter: what a returned frame is\<close>

lemma length_concat_ge:
  "\<forall>xs \<in> set xss. xs \<noteq> [] \<Longrightarrow> length xss \<le> length (concat xss)"
proof (induction xss)
  case Nil
  then show ?case by simp
next
  case (Cons xs xss)
  then have "1 \<le> length xs" by (cases xs) simp_all
  with Cons show ?case by force
qed

lemma concat_singletons:
  assumes "\<forall>xs \<in> set xss. xs \<noteq> []" and "length (concat xss) = length xss"
  shows "\<forall>xs \<in> set xss. length xs = 1"
  using assms
proof (induction xss)
  case Nil
  then show ?case by simp
next
  case (Cons xs xss)
  then have a: "1 \<le> length xs" by (cases xs) simp_all
  have b: "length xss \<le> length (concat xss)"
    using Cons.prems(1) by (intro length_concat_ge) simp
  from Cons.prems(2) a b have "length xs = 1" and "length (concat xss) = length xss"
    by simp_all
  with Cons show ?case by simp
qed

lemma select_columns_Inr:
  assumes "select_columns t names = Inr t'"
  shows "set names \<subseteq> set (labels t)"
    and "t' = concat (map (\<lambda>n. filter (\<lambda>c. fst c = n) t) names)"
  using assms by (auto simp: select_columns_def split: if_splits)

lemma filter_label_nonempty:
  "n \<in> set (labels t) \<Longrightarrow> filter (\<lambda>c. fst c = n) t \<noteq> []"
  by (auto simp: labels_def filter_empty_conv)

text \<open>A selection with as many columns as names has exactly one column per name.\<close>

lemma select_columns_exact:
  assumes "select_columns t names = Inr t'" and "length t' = length names"
  shows "t' = map (\<lambda>n. hd (filter (\<lambda>c. fst c = n) t)) names"
    and "\<forall>n \<in> set names. \<exists>c. filter (\<lambda>c. fst c = n) t = [c]"
proof -
  let ?f = "\<lambda>n. filter (\<lambda>c. fst c = n) t"
  note s = select_columns_Inr [OF assms(1)]
  have ne: "\<forall>xs \<in> set (map ?f names). xs \<noteq> []"
    using s(1) filter_label_nonempty [of _ t] by auto
  have "length (concat (map ?f names)) = length (map ?f names)"
    using assms(2) s(2) by simp
  with ne have "\<forall>xs \<in> set (map ?f names). length xs = 1"
    by (rule concat_singletons)
  then have one: "length (?f n) = Suc 0" if "n \<in> set names" for n
    using that by simp
  show two: "\<forall>n \<in> set names. \<exists>c. ?f n = [c]"
  proof
    fix n assume "n \<in> set names"
    then have "length (?f n) = Suc 0" by (rule one)
    then show "\<exists>c. ?f n = [c]"
      by (cases "?f n") simp_all
  qed
  have "concat (map ?f names) = map (\<lambda>n. hd (?f n)) names"
    using two by (induction names) auto
  with s(2) show "t' = map (\<lambda>n. hd (?f n)) names" by simp
qed

lemma set_labels_Inr:
  assumes "set_labels t names = Inr t'"
  shows "length t = length names" and "t' = zip names (map snd t)"
  using assms by (auto simp: set_labels_def split: if_splits)

lemma get_column_Inr:
  assumes "get_column t n = Inr s"
  shows "\<exists>c. filter (\<lambda>c. fst c = n) t = [c] \<and> snd c = s"
  using assms by (auto simp: get_column_def split: list.splits)

lemma filter_map_relabel:
  "n \<noteq> name \<Longrightarrow>
   filter (\<lambda>c. fst c = n) (map (\<lambda>c. if fst c = name then (name, s) else c) t) =
   filter (\<lambda>c. fst c = n) t"
  by (induction t) auto

lemma filter_set_column_other:
  "n \<noteq> name \<Longrightarrow> filter (\<lambda>c. fst c = n) (set_column t name s) = filter (\<lambda>c. fst c = n) t"
  by (simp add: set_column_def filter_map_relabel)

lemma set_column_value:
  "c \<in> set (set_column t name s) \<Longrightarrow> fst c = name \<Longrightarrow> snd c = s"
  by (cases c) (fastforce simp: set_column_def labels_def image_iff split: if_splits)

text \<open>What the adapter has done when it returns a frame.\<close>

lemma yahoo_try_Some:
  assumes "yahoo_try yf_download fdiv flog ticker s e = Inr (Some out)"
  shows "\<exists>data data1 close data3.
           yf_download ticker s e = Inr data \<and> \<not> df_empty data \<and>
           reset_index data = Inr data1 \<and>
           filter (\<lambda>col. col \<notin> set (labels data1)) expected_columns = [] \<and>
           get_column data1 ''Close'' = Inr close \<and>
           select_columns (set_column data1 ''LOG_RETURNS'' (log_returns fdiv flog close))
             [''Date'', ''Open'', ''High'', ''Low'', ''Close'', ''Volume'', ''LOG_RETURNS''] = Inr data3 \<and>
           set_labels data3 yahoo_schema = Inr out"
  using assms
  by (auto simp: yahoo_try_def then_do_Inr_iff Let_def split: if_splits)

lemma get_yahoo_finance_data_Some:
  assumes "get_yahoo_finance_data yf_download fdiv flog ticker s e = Some out"
  shows "\<exists>d o' h l c v.
           out = [(''DATE'', d), (''OPEN'', o'), (''HIGH'', h), (''LOW'', l), (''CLOSE'', c),
                  (''VOLUME'', v), (''LOG_RETURNS'', log_returns fdiv flog c)]"
proof -
  from assms have "yahoo_try yf_download fdiv flog ticker s e = Inr (Some out)"
    by (auto simp: get_yahoo_finance_data_def split: sum.splits)
  from yahoo_try_Some [OF this] obtain data data1 close data3 where
    gc: "get_column data1 ''Close'' = Inr close" and
    sel: "select_columns (set_column data1 ''LOG_RETURNS'' (log_returns fdiv flog close))
             [''Date'', ''Open'', ''High'', ''Low'', ''Close'', ''Volume'', ''LOG_RETURNS''] = Inr data3" and
    lab: "set_labels data3 yahoo_schema = Inr out"
    by blast
  let ?lr = "log_returns fdiv flog close"
  let ?data2 = "set_column data1 ''LOG_RETURNS'' ?lr"
  let ?f = "\<lambda>n. filter (\<lambda>c. fst c = n) ?data2"
  note sl = set_labels_Inr [OF lab]
  have len: "length data3 = length [''Date'', ''Open'', ''High'', ''Low'', ''Close'', ''Volume'', ''LOG_RETURNS'']"
    using sl(1) by (simp add: yahoo_schema_def)
  note ex = select_columns_exact [OF sel len]
  obtain cc where cc: "filter (\<lambda>c. fst c = ''Close'') data1 = [cc]" "snd cc = close"
    using get_column_Inr [OF gc] by blast
  have "?f ''Close'' = filter (\<lambda>c. fst c = ''Close'') data1"
    by (rule filter_set_column_other) simp
  then have close: "snd (hd (?f ''Close'')) = close"
    using cc by simp
  obtain cl where cl: "?f ''LOG_RETURNS'' = [cl]"
    using ex(2) by auto
  have "cl \<in> set (?f ''LOG_RETURNS'')"
    by (simp only: cl list.set_intros)
  then have "cl \<in> set ?data2" and "fst cl = ''LOG_RETURNS''"
    by simp_all
  then have "snd cl = ?lr"
    by (rule set_column_value)
  then have lr: "snd (hd (?f ''LOG_RETURNS'')) = ?lr"
    by (simp only: cl list.sel)
  have "out = zip yahoo_schema (map snd (map (\<lambda>n. hd (?f n))
           [''Date'', ''Open'', ''High'', ''Low'', ''Close'', ''Volume'', ''LOG_RETURNS'']))"
    using sl(2) ex(1) by simp
  then have "out = [(''DATE'', snd (hd (?f ''Date''))), (''OPEN'', snd (hd (?f ''Open''))),
                    (''HIGH'', snd (hd (?f ''High''))), (''LOW'', snd (hd (?f ''Low''))),
                    (''CLOSE'', snd (hd (?f ''Close''))), (''VOLUME'', snd (hd (?f ''Volume''))),
                    (''LOG_RETURNS'', snd (hd (?f ''LOG_RETURNS'')))]"
    by (simp only: yahoo_schema_def list.map zip_Cons_Cons zip_Nil)
  then have "out = [(''DATE'', snd (hd (?f ''Date''))), (''OPEN'', snd (hd (?f ''Open''))),
                    (''HIGH'', snd (hd (?f ''High''))), (''LOW'', snd (hd (?f ''Low''))),
                    (''CLOSE'', close), (''VOLUME'', snd (hd (?f ''Volume''))),
                    (''LOG_RETURNS'', log_returns fdiv flog close)]"
    by (simp only: close lr)
  then show ?thesis
    by (intro exI)
qed

lemma length_shift1: "length (shift1 s) = length s"
  by (simp add: shift1_def)

lemma shift1_nth:
  "t < length s \<Longrightarrow> shift1 s ! t = (if t = 0 then None else s ! (t - 1))"
  by (cases t) (auto simp: shift1_def nth_butlast)

lemma cell_div_None [simp]: "cell_div fdiv a None = None"
  by (simp add: cell_div_def split: option.splits)

lemma cell_div_Some [simp]: "cell_div fdiv (Some a) (Some b) = Some (fdiv a b)"
  by (simp add: cell_div_def)

lemma length_log_returns: "length (log_returns fdiv flog close) = length close"
  by (simp add: log_returns_def np_log_def series_div_def length_shift1)

lemma log_returns_nth:
  assumes "t < length close"
  shows "log_returns fdiv flog close ! t =
           (if t = 0 then None else map_option flog (cell_div fdiv (close ! t) (close ! (t - 1))))"
  using assms
  by (simp add: log_returns_def np_log_def series_div_def length_shift1 shift1_nth)

lemma get_yahoo_finance_data_None:
  assumes "(\<exists>x. yf_download t s e = Inl x) \<or>
           (\<exists>data. yf_download t s e = Inr data \<and> df_empty data) \<or>
           (\<exists>data data1. yf_download t s e = Inr data \<and> reset_index data = Inr data1 \<and>
                          \<not> set expected_columns \<subseteq> set (labels data1))"
  shows "get_yahoo_finance_data yf_download fdiv flog t s e = None"
proof -
  consider (raised) x where "yf_download t s e = Inl x"
    | (empty) data where "yf_download t s e = Inr data" "df_empty data"
    | (short) data data1 where "yf_download t s e = Inr data" "reset_index data = Inr data1"
        "\<not> set expected_columns \<subseteq> set (labels data1)"
    using assms by (elim disjE exE conjE)
  then show ?thesis
  proof cases
    case raised
    then show ?thesis
      by (simp add: get_yahoo_finance_data_def yahoo_try_def then_do_def)
  next
    case empty
    then show ?thesis
      by (simp add: get_yahoo_finance_data_def yahoo_try_def then_do_def)
  next
    case short
    from short(3) have "filter (\<lambda>col. col \<notin> set (labels data1)) expected_columns \<noteq> []"
      by (auto simp: filter_empty_conv)
    with short(1,2) show ?thesis
      by (simp add: get_yahoo_finance_data_def yahoo_try_def then_do_def Let_def)
  qed
qed

lemma get_yahoo_finance_data_labels:
  assumes "get_yahoo_finance_data yf_download fdiv flog ticker s e = Some y"
  shows "labels y = yahoo_schema"
  using get_yahoo_finance_data_Some [OF assms]
  by (auto simp: labels_def yahoo_schema_def)

lemma scenario_AAPL:
  "get_yahoo_finance_data scenario_download (/) ln ''AAPL'' ''2023-01-01'' ''2024-01-01'' =
     Some scenario_yahoo_table"
  by (simp add: get_yahoo_finance_data_def yahoo_try_def then_do_def df_empty_def reset_index_def
      labels_def expected_columns_def get_column_def set_column_def select_columns_def set_labels_def
      yahoo_schema_def log_returns_def np_log_def shift1_def series_div_def cell_div_def
      scenario_download_def scenario_frame_def scenario_yahoo_table_def)

section \<open>The Polygon adapter: what a returned frame is\<close>

lemma labels_select:
  "labels (concat (map (\<lambda>n. filter (\<lambda>c. fst c = n) t) names)) =
   concat (map (\<lambda>n. replicate (length (filter (\<lambda>c. fst c = n) t)) n) names)"
proof -
  have "map fst (filter (\<lambda>c. fst c = n) t) = replicate (length (filter (\<lambda>c. fst c = n) t)) n" for n
    by (induction t) auto
  then show ?thesis
    by (simp add: labels_def map_concat comp_def)
qed

lemma remdups_adj_blocks:
  assumes "distinct names" and "\<forall>n \<in> set names. 0 < k n"
  shows "remdups_adj (concat (map (\<lambda>n. replicate (k n) n) names)) = names"
  using assms
proof (induction names)
  case Nil
  then show ?case by simp
next
  case (Cons a names)
  let ?rest = "concat (map (\<lambda>n. replicate (k n) n) names)"
  have ka: "0 < k a" using Cons.prems(2) by simp
  have rest: "remdups_adj ?rest = names"
    using Cons by simp
  have sep: "?rest = [] \<or> last (replicate (k a) a) \<noteq> hd ?rest"
  proof (cases names)
    case Nil
    then show ?thesis by simp
  next
    case (Cons b bs)
    then have "0 < k b" and "a \<noteq> b"
      using Cons.prems by auto
    then have "hd ?rest = b"
      using Cons by (cases "k b") simp_all
    with ka \<open>a \<noteq> b\<close> show ?thesis by simp
  qed
  have "remdups_adj (replicate (k a) a @ ?rest) = remdups_adj (replicate (k a) a) @ remdups_adj ?rest"
    using sep by (intro remdups_adj_append') simp
  with ka rest show ?case
    by (simp add: remdups_adj_replicate)
qed

lemma set_index_Inr:
  "set_index t name = Inr f \<Longrightarrow> index_name f = Some name"
  by (auto simp: set_index_def then_do_Inr_iff)

lemma no_data_branch:
  "then_do r (\<lambda>status. Inr None) \<noteq> Inr (Some p)"
  by (cases r) (simp_all add: then_do_def)

lemma polygon_try_Some:
  assumes "polygon_try requests_get to_datetime ticker s e key m ts = Inr (Some (p :: 'v frame))"
  shows "\<exists>df2 cols. index_name df2 = Some ''Timestamp'' \<and>
           select_columns (columns df2) polygon_schema = Inr cols \<and> p = df2\<lparr>columns := cols\<rparr>"
proof -
  from assms obtain data :: "'v payload" and results where
    body: "(case results of
         Some (r # rs) \<Rightarrow>
           (let df = DataFrame (r # rs);
                df1 = rename_columns polygon_renames df
            in then_do (get_column df1 ''Timestamp'') (\<lambda>ts.
               then_do (to_datetime ts) (\<lambda>ts1.
               then_do (set_index (set_column df1 ''Timestamp'' ts1) ''Timestamp'') (\<lambda>df2.
               then_do (select_columns (columns df2) polygon_schema) (\<lambda>cols.
                 Inr (Some (df2\<lparr>columns := cols\<rparr>)))))))
       | _ \<Rightarrow>
           then_do (get_status data) (\<lambda>status.
             if status = Some ''NOT_FOUND'' \<or> \<not> truthy results then Inr None
             else Inr None)) = Inr (Some p)"
    unfolding polygon_try_def then_do_Inr_iff by blast
  show ?thesis
  proof (cases results)
    case None
    with body show ?thesis by (simp add: no_data_branch)
  next
    case (Some rows)
    show ?thesis
    proof (cases rows)
      case Nil
      with Some body show ?thesis by (simp add: no_data_branch)
    next
      case (Cons r rs)
      with Some body obtain ts1 df2 cols where
        "set_index (set_column (rename_columns polygon_renames (DataFrame (r # rs))) ''Timestamp'' ts1)
           ''Timestamp'' = Inr df2"
        "select_columns (columns df2) polygon_schema = Inr cols" "p = df2\<lparr>columns := cols\<rparr>"
        by (auto simp: Let_def then_do_Inr_iff)
      with set_index_Inr show ?thesis by blast
    qed
  qed
qed

lemma get_polygon_data_Some:
  assumes "get_polygon_data requests_get to_datetime ticker s e key m ts = Some p"
  shows "index_name p = Some ''Timestamp''"
    and "remdups_adj (labels (columns p)) = polygon_schema"
proof -
  from assms have "polygon_try requests_get to_datetime ticker s e key m ts = Inr (Some p)"
    by (auto simp: get_polygon_data_def split: sum.splits exn.splits)
  from polygon_try_Some [OF this] obtain df2 cols where
    ix: "index_name df2 = Some ''Timestamp''" and
    sel: "select_columns (columns df2) polygon_schema = Inr cols" and
    p: "p = df2\<lparr>columns := cols\<rparr>"
    by (elim exE conjE)
  show "index_name p = Some ''Timestamp''"
    by (simp add: p ix)
  note s = select_columns_Inr [OF sel]
  have pos: "\<forall>n \<in> set polygon_schema. 0 < length (filter (\<lambda>c. fst c = n) (columns df2))"
    using s(1) filter_label_nonempty [of _ "columns df2"] by auto
  have "distinct polygon_schema"
    by (simp add: polygon_schema_def)
  from remdups_adj_blocks [OF this pos]
  show "remdups_adj (labels (columns p)) = polygon_schema"
    by (simp add: p s(2) labels_select)
qed

lemma polygon_try_Some_payload:
  assumes "polygon_try requests_get to_datetime ticker s e key m ts = Inr (Some (p :: 'v frame))"
  shows "\<exists>response st rows ts1 df2 cols.
           requests_get ticker s e key m ts = Inr response \<and>
           json_body response = Some (Object st (Some rows)) \<and>
           set_index (set_column (rename_columns polygon_renames (DataFrame rows)) ''Timestamp'' ts1)
             ''Timestamp'' = Inr df2 \<and>
           select_columns (columns df2) polygon_schema = Inr cols \<and> p = df2\<lparr>columns := cols\<rparr>"
proof -
  from assms obtain response and data :: "'v payload" and results where
    rg: "requests_get ticker s e key m ts = Inr response" and
    rj: "response_json response = Inr data" and
    gr: "get_results data = Inr results" and
    body: "(case results of
         Some (r # rs) \<Rightarrow>
           (let df = DataFrame (r # rs);
                df1 = rename_columns polygon_renames df
            in then_do (get_column df1 ''Timestamp'') (\<lambda>ts.
               then_do (to_datetime ts) (\<lambda>ts1.
               then_do (set_index (set_column df1 ''Timestamp'' ts1) ''Timestamp'') (\<lambda>df2.
               then_do (select_columns (columns df2) polygon_schema) (\<lambda>cols.
                 Inr (Some (df2\<lparr>columns := cols\<rparr>)))))))
       | _ \<Rightarrow>
           then_do (get_status data) (\<lambda>status.
             if status = Some ''NOT_FOUND'' \<or> \<not> truthy results then Inr None
             else Inr None)) = Inr (Some p)"
    unfolding polygon_try_def then_do_Inr_iff by blast
  from rj have jb: "json_body response = Some data"
    by (auto simp: response_json_def split: option.splits)
  from gr obtain st where d: "data = Object st results"
    by (auto simp: get_results_def split: payload.splits)
  show ?thesis
  proof (cases results)
    case None
    with body show ?thesis by (simp add: no_data_branch)
  next
    case (Some rows)
    show ?thesis
    proof (cases rows)
      case Nil
      with Some body show ?thesis by (simp add: no_data_branch)
    next
      case (Cons r rs)
      with Some body obtain ts1 df2 cols where
        "set_index (set_column (rename_columns polygon_renames (DataFrame rows)) ''Timestamp'' ts1)
           ''Timestamp'' = Inr df2"
        "select_columns (columns df2) polygon_schema = Inr cols" "p = df2\<lparr>columns := cols\<rparr>"
        by (auto simp: Let_def then_do_Inr_iff)
      with rg jb d Some show ?thesis by blast
    qed
  qed
qed

lemma labels_rename_DataFrame:
  "labels (rename_columns polygon_renames (DataFrame rows)) =
     map (rename_label polygon_renames) (first_seen (concat (map (map fst) rows)))"
  by (simp add: labels_def rename_columns_def DataFrame_def comp_def)

lemma distinct_first_seen: "distinct (first_seen xs)"
  by (simp add: first_seen_def)

lemma set_first_seen: "set (first_seen xs) = set xs"
  by (simp add: first_seen_def)

lemma rename_label_schema:
  assumes "n \<in> set polygon_schema" and "rename_label polygon_renames k = n"
    and "k \<notin> set polygon_schema"
  shows "map_of polygon_renames k = Some n"
  using assms
  by (auto simp: rename_label_def polygon_schema_def polygon_renames_def split: if_splits)

lemma rename_sources_unique:
  assumes "n \<in> set polygon_schema"
    and "map_of polygon_renames k = Some n" and "map_of polygon_renames k' = Some n"
  shows "k = k'"
  using assms
  by (auto simp: polygon_schema_def polygon_renames_def split: if_splits)

text \<open>A label of the schema comes from at most one key when no key is itself such a label.\<close>

lemma at_most_one_source:
  assumes "distinct ks" and "set ks \<inter> set polygon_schema = {}" and "n \<in> set polygon_schema"
  shows "length (filter (\<lambda>k. rename_label polygon_renames k = n) ks) \<le> 1"
proof -
  let ?F = "filter (\<lambda>k. rename_label polygon_renames k = n) ks"
  have src: "map_of polygon_renames k = Some n" if "k \<in> set ?F" for k
    using that assms(2,3) rename_label_schema [of n k] by auto
  have "k = k'" if "k \<in> set ?F" and "k' \<in> set ?F" for k k'
    using rename_sources_unique [OF assms(3) src [OF that(1)] src [OF that(2)]] .
  then have "card (set ?F) \<le> 1"
    by (metis card_le_Suc0_iff_eq One_nat_def List.finite_set)
  moreover have "distinct ?F"
    using assms(1) by simp
  ultimately show ?thesis
    using distinct_card [of ?F] by (simp only:)
qed

lemma length_filter_labels:
  "length (filter (\<lambda>c. fst c = n) t) = length (filter (\<lambda>l. l = n) (labels t))"
  by (simp add: labels_def filter_map comp_def)

lemma filter_label_drop_other:
  "n \<noteq> name \<Longrightarrow>
   filter (\<lambda>c. fst c = n) (filter (\<lambda>c. fst c \<noteq> name) t) = filter (\<lambda>c. fst c = n) t"
  by (induction t) auto

lemma set_index_columns:
  "set_index t name = Inr f \<Longrightarrow> columns f = filter (\<lambda>c. fst c \<noteq> name) t"
  by (auto simp: set_index_def then_do_Inr_iff)

lemma concat_map_singleton_id: "concat (map (\<lambda>n. [n]) xs) = xs"
  by (induction xs) simp_all

lemma get_polygon_data_exact:
  assumes p: "get_polygon_data requests_get to_datetime ticker s e key m ts = Some (p :: 'v frame)"
    and rg: "requests_get ticker s e key m ts = Inr response"
    and jb: "json_body response = Some (Object st (Some rows))"
    and keys: "set (concat (map (map fst) rows)) \<inter> set polygon_schema = {}"
  shows "labels (columns p) = polygon_schema"
proof -
  from p have "polygon_try requests_get to_datetime ticker s e key m ts = Inr (Some p)"
    by (auto simp: get_polygon_data_def split: sum.splits exn.splits)
  from polygon_try_Some_payload [OF this] rg jb obtain ts1 df2 cols where
    si: "set_index (set_column (rename_columns polygon_renames (DataFrame rows)) ''Timestamp'' ts1)
           ''Timestamp'' = Inr df2" and
    sel: "select_columns (columns df2) polygon_schema = Inr cols" and
    pe: "p = df2\<lparr>columns := cols\<rparr>"
    by auto
  let ?df1 = "rename_columns polygon_renames (DataFrame rows)"
  let ?ks = "first_seen (concat (map (map fst) rows))"
  note s = select_columns_Inr [OF sel]
  have one: "length (filter (\<lambda>c. fst c = n) (columns df2)) = 1" if n: "n \<in> set polygon_schema" for n
  proof -
    have ne: "n \<noteq> ''Timestamp''"
      using n by (auto simp: polygon_schema_def)
    have "filter (\<lambda>c. fst c = n) (columns df2) = filter (\<lambda>c. fst c = n) ?df1"
      by (simp only: set_index_columns [OF si] filter_label_drop_other [OF ne]
          filter_set_column_other [OF ne])
    then have "length (filter (\<lambda>c. fst c = n) (columns df2)) =
               length (filter (\<lambda>k. rename_label polygon_renames k = n) ?ks)"
      by (simp add: length_filter_labels labels_rename_DataFrame filter_map comp_def)
    moreover have "length (filter (\<lambda>k. rename_label polygon_renames k = n) ?ks) \<le> 1"
      using keys n by (intro at_most_one_source) (simp_all add: distinct_first_seen set_first_seen)
    moreover have "filter (\<lambda>c. fst c = n) (columns df2) \<noteq> []"
      using s(1) n by (intro filter_label_nonempty) auto
    ultimately show ?thesis
      by (cases "filter (\<lambda>c. fst c = n) (columns df2)") simp_all
  qed
  have "labels (columns p) =
        concat (map (\<lambda>n. replicate (length (filter (\<lambda>c. fst c = n) (columns df2))) n) polygon_schema)"
    by (simp add: pe s(2) labels_select)
  also have "\<dots> = concat (map (\<lambda>n. [n]) polygon_schema)"
    using one by (intro arg_cong [where f = concat] map_cong) simp_all
  also have "\<dots> = polygon_schema"
    by (rule concat_map_singleton_id)
  finally show ?thesis .
qed

lemma colliding_polygon_AAPL:
  "map_option (\<lambda>p. labels (columns p))
     (get_polygon_data colliding_requests_get scenario_to_datetime
        ''AAPL'' ''2023-01-01'' ''2024-01-01'' ''key'' 1 ''day'') =
   Some [''Open'', ''Open'', ''High'', ''Low'', ''Close'', ''Volume'']"
  by code_simp

lemma scenario_polygon_AAPL:
  "get_polygon_data scenario_requests_get scenario_to_datetime
     ''AAPL'' ''2023-01-01'' ''2024-01-01'' ''key'' 1 ''day'' = Some scenario_polygon_frame"
  by code_simp

section \<open>The outcomes of a batch do not depend on the pool\<close>

text \<open>
  Claim C1. For every universe \<open>U\<close> and all worker counts \<open>W1, W2 \<ge> 1\<close> (and whatever the
  durations of the calls are), both runs return, each with exactly \<open>|U|\<close> outcomes; the
  outcomes are, as a multiset, the pairs of a submitted ticker and the result of its call,
  one per element of \<open>U\<close>, so none is lost or duplicated; and the two runs have the same
  multiset and the same set of (ticker, outcome) pairs.
\<close>

theorem batch_outcomes_independent_of_workers:
  assumes "1 \<le> W1" and "1 \<le> W2"
  shows "\<exists>r1 r2. run_batch task U s e W1 dur1 = Inr r1 \<and> run_batch task U s e W2 dur2 = Inr r2 \<and>
           length (outcomes r1) = length U \<and> length (outcomes r2) = length U \<and>
           mset (outcomes r1) = mset (map (\<lambda>t. (t, task t s e)) U) \<and>
           mset (outcomes r2) = mset (outcomes r1) \<and>
           set (outcomes r2) = set (outcomes r1)"
proof -
  obtain r1 where r1: "run_batch task U s e W1 dur1 = Inr r1"
    using run_batch_returns [OF assms(1)] by blast
  obtain r2 where r2: "run_batch task U s e W2 dur2 = Inr r2"
    using run_batch_returns [OF assms(2)] by blast
  note m1 = run_batch_outcomes [OF r1] and m2 = run_batch_outcomes [OF r2]
  have l1: "length (outcomes r1) = length U"
    using m1 [THEN mset_eq_length] by simp
  have l2: "length (outcomes r2) = length U"
    using m2 [THEN mset_eq_length] by simp
  have s: "set (outcomes r2) = set (outcomes r1)"
    using m1 m2 by (metis mset_eq_setD)
  show ?thesis using r1 r2 l1 l2 s m1 m2 by simp
qed

theorem batch_outcomes_independent_of_workers_witness:
  "\<exists>r1 r2. run_batch scenario_task [''AAPL'', ''BADTICKER'', ''MSFT''] ''2023-01-01'' ''2024-01-01'' 1 (\<lambda>i. 2) = Inr r1 \<and>
      run_batch scenario_task [''AAPL'', ''BADTICKER'', ''MSFT''] ''2023-01-01'' ''2024-01-01'' 10 (\<lambda>i. 3 - i) = Inr r2 \<and>
      outcomes r1 = [(''AAPL'', Inr True), (''BADTICKER'', Inr False), (''MSFT'', Inr True)] \<and>
      outcomes r2 = [(''MSFT'', Inr True), (''BADTICKER'', Inr False), (''AAPL'', Inr True)] \<and>
      length (outcomes r1) = 3 \<and> length (outcomes r2) = 3 \<and>
      mset (outcomes r2) = mset (outcomes r1) \<and> set (outcomes r2) = set (outcomes r1)"
proof -
  have o1: "done_order 1 (\<lambda>i. 2) (length [''AAPL'', ''BADTICKER'', ''MSFT'']) = [0, 1, 2]"
    by code_simp
  have o2: "done_order 10 (\<lambda>i. 3 - i) (length [''AAPL'', ''BADTICKER'', ''MSFT'']) = [2, 1, 0]"
    by code_simp
  show ?thesis
    using batch_outcomes_independent_of_workers [of 1 10 scenario_task
        "[''AAPL'', ''BADTICKER'', ''MSFT'']" "''2023-01-01''" "''2024-01-01''" "\<lambda>i. 2" "\<lambda>i. 3 - i"]
    by (simp add: run_batch_eq o1 [simplified] o2 [simplified] scenario_task_eq Let_def)
qed

section \<open>Failures stay inside the task\<close>

text \<open>
  Claim C2. Whenever the adapter call raises, or the adapter returns a frame and writing
  it raises, \<open>collect_data_for_ticker\<close> returns \<open>False\<close>, the failed outcome, instead of
  raising. A batch that contains such a ticker still returns normally (for every
  \<open>W \<ge> 1\<close>): the failed ticker's outcome is among the outcomes, and every element of the
  universe, siblings included, has exactly its own outcome there.
\<close>

theorem task_failure_becomes_failed_outcome:
  assumes "1 \<le> W" and "t \<in> set U"
    and "(\<exists>x. fetch t s e = Inl x) \<or>
         (\<exists>df x. fetch t s e = Inr (Some df) \<and>
                 to_csv (path_join DATA_DIR (t @ ''_yahoo_finance.csv'')) df = Inl x)"
  shows "collect_data_for_ticker fetch to_csv t s e = Inr False \<and>
         (\<exists>r. run_batch (collect_data_for_ticker fetch to_csv) U s e W dur = Inr r \<and>
              (t, Inr False) \<in> set (outcomes r) \<and>
              mset (outcomes r) =
                mset (map (\<lambda>u. (u, collect_data_for_ticker fetch to_csv u s e)) U))"
proof -
  have f: "collect_data_for_ticker fetch to_csv t s e = Inr False"
    using assms(3) by (auto simp: collect_data_for_ticker_eq)
  obtain r where r: "run_batch (collect_data_for_ticker fetch to_csv) U s e W dur = Inr r"
    using run_batch_returns [OF assms(1)] by blast
  note m = run_batch_outcomes [OF r]
  have "(t, Inr False) \<in> set (map (\<lambda>u. (u, collect_data_for_ticker fetch to_csv u s e)) U)"
    using assms(2) f by force
  then have "(t, Inr False) \<in> set (outcomes r)"
    using m [THEN mset_eq_setD] by simp
  with f r m show ?thesis by simp
qed

theorem task_failure_becomes_failed_outcome_witness:
  "collect_data_for_ticker flaky_fetch full_disk_to_csv ''MSFT'' ''2023-01-01'' ''2024-01-01'' = Inr False \<and>
   (\<exists>r. run_batch (collect_data_for_ticker flaky_fetch full_disk_to_csv) [''AAPL'', ''MSFT'', ''XYZ'']
          ''2023-01-01'' ''2024-01-01'' 2 (\<lambda>i. 1) = Inr r \<and>
        mset (outcomes r) = {#(''AAPL'', Inr True), (''MSFT'', Inr False), (''XYZ'', Inr False)#})"
  using task_failure_becomes_failed_outcome [of 2 "''MSFT''" "[''AAPL'', ''MSFT'', ''XYZ'']"
      flaky_fetch "''2023-01-01''" "''2024-01-01''" full_disk_to_csv "\<lambda>i. 1"]
  by (auto simp: flaky_fetch_def full_disk_to_csv_def collect_data_for_ticker_eq path_join_DATA_DIR)

section \<open>The task always returns a boolean\<close>

text \<open>
  Claim C9. For every ticker and date range and every behaviour of the adapter call and
  of the write (\<open>fetch\<close> and \<open>to_csv\<close> are arbitrary), \<open>collect_data_for_ticker\<close> returns a
  boolean and raises nothing: \<open>True\<close> exactly when the adapter returned a frame and the
  frame was written, \<open>False\<close> otherwise. Consequently, in a batch of such tasks every
  \<open>future.result()\<close> is a returned value, and \<open>failed_tickers\<close> stays empty.
\<close>

theorem collect_data_for_ticker_returns_bool:
  assumes "1 \<le> W"
  shows "(\<exists>b. collect_data_for_ticker fetch to_csv t s e = Inr b \<and>
              (b \<longleftrightarrow> (\<exists>df. fetch t s e = Inr (Some df) \<and>
                        to_csv (path_join DATA_DIR (t @ ''_yahoo_finance.csv'')) df = Inr ()))) \<and>
         (\<exists>r. run_batch (collect_data_for_ticker fetch to_csv) U s e W dur = Inr r \<and>
              (\<forall>p \<in> set (outcomes r). \<exists>b. snd p = Inr b) \<and> failed_tickers r = [])"
proof -
  obtain r where r: "run_batch (collect_data_for_ticker fetch to_csv) U s e W dur = Inr r"
    using run_batch_returns [OF assms] by blast
  have out: "\<forall>p \<in> set (outcomes r). \<exists>b. snd p = Inr b"
    by (auto simp: run_batch_shape(1) [OF r] collect_data_for_ticker_eq)
  then have "filter (\<lambda>p. isl (snd p)) (outcomes r) = []"
    by (auto simp: filter_empty_conv)
  then have "failed_tickers r = []"
    by (simp add: run_batch_shape(2) [OF r])
  with r out show ?thesis
    by (simp add: collect_data_for_ticker_eq)
qed

theorem collect_data_for_ticker_returns_bool_witness:
  "collect_data_for_ticker flaky_fetch scenario_to_csv ''AAPL'' ''2023-01-01'' ''2024-01-01'' = Inr True \<and>
   collect_data_for_ticker flaky_fetch scenario_to_csv ''BADTICKER'' ''2023-01-01'' ''2024-01-01'' = Inr False \<and>
   collect_data_for_ticker flaky_fetch scenario_to_csv ''XYZ'' ''2023-01-01'' ''2024-01-01'' = Inr False \<and>
   (\<exists>r. run_batch (collect_data_for_ticker flaky_fetch scenario_to_csv) [''AAPL'', ''BADTICKER'', ''XYZ'']
          ''2023-01-01'' ''2024-01-01'' 5 (\<lambda>i. 1) = Inr r \<and> failed_tickers r = [] \<and> manifest r = None)"
proof -
  have a: "collect_data_for_ticker flaky_fetch scenario_to_csv ''AAPL'' ''2023-01-01'' ''2024-01-01'' = Inr True"
    using collect_data_for_ticker_returns_bool [of 5 flaky_fetch scenario_to_csv "''AAPL''"
        "''2023-01-01''" "''2024-01-01''" "[]" "\<lambda>i. 1"]
    by (auto simp: flaky_fetch_def scenario_to_csv_def)
  have b: "collect_data_for_ticker flaky_fetch scenario_to_csv ''BADTICKER'' ''2023-01-01'' ''2024-01-01'' = Inr False"
    by (simp add: collect_data_for_ticker_eq flaky_fetch_def)
  have c: "collect_data_for_ticker flaky_fetch scenario_to_csv ''XYZ'' ''2023-01-01'' ''2024-01-01'' = Inr False"
    by (simp add: collect_data_for_ticker_eq flaky_fetch_def)
  have d: "\<exists>r. run_batch (collect_data_for_ticker flaky_fetch scenario_to_csv) [''AAPL'', ''BADTICKER'', ''XYZ'']
          ''2023-01-01'' ''2024-01-01'' 5 (\<lambda>i. 1) = Inr r \<and> failed_tickers r = [] \<and> manifest r = None"
    using collect_data_for_ticker_returns_bool [of 5 flaky_fetch scenario_to_csv "''AAPL''"
        "''2023-01-01''" "''2024-01-01''" "[''AAPL'', ''BADTICKER'', ''XYZ'']" "\<lambda>i. 1"]
    by (auto simp: run_batch_shape(3))
  from a b c d show ?thesis by simp
qed

section \<open>Repeated tickers\<close>

text \<open>
  Claim C8. For every universe, with or without repeated tickers, and every \<open>W \<ge> 1\<close> the
  batch returns without an error, with one outcome per element of the universe: a ticker
  that occurs \<open>k\<close> times in the universe has \<open>k\<close> outcomes, each the result of its own
  call. The witness is \<open>main\<close> itself on the hardcoded universe, in which \<open>CMCSA\<close>
  occurs twice.
\<close>

theorem duplicate_tickers_are_independent_tasks:
  assumes "1 \<le> W"
  shows "\<exists>r. run_batch task U s e W dur = Inr r \<and>
             length (outcomes r) = length U \<and>
             (\<forall>t. count_list (map fst (outcomes r)) t = count_list U t) \<and>
             (\<forall>p \<in> set (outcomes r). snd p = task (fst p) s e)"
proof -
  obtain r where r: "run_batch task U s e W dur = Inr r"
    using run_batch_returns [OF assms] by blast
  note m = run_batch_outcomes [OF r]
  have len: "length (outcomes r) = length U"
    using m [THEN mset_eq_length] by simp
  have "mset (map fst (outcomes r)) = image_mset fst (mset (outcomes r))"
    by simp
  also have "\<dots> = image_mset fst (image_mset (\<lambda>t. (t, task t s e)) (mset U))"
    by (simp add: m)
  also have "\<dots> = mset U"
    by (simp add: multiset.map_comp comp_def)
  finally have "mset (map fst (outcomes r)) = mset U" .
  then have cnt: "\<forall>t. count_list (map fst (outcomes r)) t = count_list U t"
    by (metis count_mset)
  have own: "\<forall>p \<in> set (outcomes r). snd p = task (fst p) s e"
    using m [THEN mset_eq_setD] by auto
  from r len cnt own show ?thesis by blast
qed

theorem duplicate_tickers_are_independent_tasks_witness:
  "\<exists>r. main scenario_download (/) ln scenario_to_csv ''2023-01-01'' ''2024-01-01'' 5 (\<lambda>i. 1) = Inr r \<and>
       length (outcomes r) = 433 \<and>
       count_list (map fst (outcomes r)) ''CMCSA'' = 2 \<and>
       (\<forall>b. (''CMCSA'', b) \<in> set (outcomes r) \<longleftrightarrow> b = Inr True)"
proof -
  obtain r where r: "run_batch scenario_task SP500_TICKERS ''2023-01-01'' ''2024-01-01'' 5 (\<lambda>i. 1) = Inr r"
    and len: "length (outcomes r) = length SP500_TICKERS"
    and cnt: "\<forall>t. count_list (map fst (outcomes r)) t = count_list SP500_TICKERS t"
    and own: "\<forall>p \<in> set (outcomes r). snd p = scenario_task (fst p) ''2023-01-01'' ''2024-01-01''"
    using duplicate_tickers_are_independent_tasks [of 5 scenario_task SP500_TICKERS
        "''2023-01-01''" "''2024-01-01''" "\<lambda>i. 1"]
    by auto
  have c: "count_list (map fst (outcomes r)) ''CMCSA'' = 2"
    using cnt SP500_TICKERS_CMCSA by simp
  then have "''CMCSA'' \<in> set (map fst (outcomes r))"
    by (metis count_list_0_iff zero_neq_numeral)
  then obtain b where b: "(''CMCSA'', b) \<in> set (outcomes r)"
    by auto
  have "\<forall>b. (''CMCSA'', b) \<in> set (outcomes r) \<longleftrightarrow> b = Inr True"
    using own b by (auto simp: scenario_task_eq)
  with r len c show ?thesis
    by (simp add: main_def scenario_task_def [symmetric] length_SP500_TICKERS)
qed

section \<open>The manifest\<close>

text \<open>
  Claim C3, evaluated on the code. The universe is \<open>AAPL\<close>, \<open>BADTICKER\<close>; the provider
  has rows for the first and none for the second. The task of \<open>BADTICKER\<close> fails (its
  outcome is \<open>False\<close>), yet the run writes no manifest, where the specification asks for
  the one-line manifest \<open>BADTICKER\<close>: the loop of \<open>main\<close> adds a ticker to
  \<open>failed_tickers\<close> only when \<open>future.result()\<close> raises, and
  \<open>collect_data_for_ticker\<close> never raises.
\<close>

theorem failed_task_leaves_no_manifest:
  "run_batch scenario_task [''AAPL'', ''BADTICKER''] ''2023-01-01'' ''2024-01-01'' 5 (\<lambda>i. 1) =
     Inr \<lparr>outcomes = [(''AAPL'', Inr True), (''BADTICKER'', Inr False)],
          failed_tickers = [], manifest = None\<rparr> \<and>
   spec_manifest scenario_task [''AAPL'', ''BADTICKER''] ''2023-01-01'' ''2024-01-01'' =
     Some (''collected_data/failed_tickers.txt'', ''BADTICKER'')"
proof -
  have o: "done_order 5 (\<lambda>i. 1) (length [''AAPL'', ''BADTICKER'']) = [0, 1]"
    by code_simp
  show ?thesis
    by (simp add: run_batch_eq o [simplified] scenario_task_eq Let_def spec_manifest_def
        path_join_def DATA_DIR_def)
qed

text \<open>
  Claim C4, evaluated on the code. The universe is \<open>AAPL\<close>, \<open>BADTICKER\<close>, \<open>MSFT\<close>, on
  the default five workers, whatever the durations of the calls; the provider has no rows
  for \<open>BADTICKER\<close>. The task of \<open>BADTICKER\<close> fails, so the manifest the claim describes
  is the one line \<open>BADTICKER\<close>. The run records no failed ticker and writes no
  manifest, for the reason given under claim C3.
\<close>

theorem failed_ticker_missing_from_manifest:
  "scenario_task ''BADTICKER'' ''2023-01-01'' ''2024-01-01'' = Inr False \<and>
   map_sum id failed_tickers
     (run_batch scenario_task [''AAPL'', ''BADTICKER'', ''MSFT''] ''2023-01-01'' ''2024-01-01'' 5 dur) =
     Inr [] \<and>
   map_sum id manifest
     (run_batch scenario_task [''AAPL'', ''BADTICKER'', ''MSFT''] ''2023-01-01'' ''2024-01-01'' 5 dur) =
     Inr None \<and>
   spec_manifest scenario_task [''AAPL'', ''BADTICKER'', ''MSFT''] ''2023-01-01'' ''2024-01-01'' =
     Some (''collected_data/failed_tickers.txt'', ''BADTICKER'')"
proof -
  obtain r where r: "run_batch scenario_task [''AAPL'', ''BADTICKER'', ''MSFT'']
      ''2023-01-01'' ''2024-01-01'' 5 dur = Inr r"
    using run_batch_returns [of 5] by fastforce
  note sh = run_batch_shape [OF r]
  have "filter (\<lambda>p. isl (snd p)) (outcomes r) = []"
    by (auto simp: sh(1) scenario_task_eq filter_empty_conv)
  then have f: "failed_tickers r = []"
    by (simp add: sh(2))
  then have m: "manifest r = None"
    by (simp add: sh(3))
  have s: "spec_manifest scenario_task [''AAPL'', ''BADTICKER'', ''MSFT''] ''2023-01-01'' ''2024-01-01'' =
     Some (''collected_data/failed_tickers.txt'', ''BADTICKER'')"
    by (simp add: scenario_task_eq spec_manifest_def path_join_def DATA_DIR_def)
  from r f m s show ?thesis
    by (simp add: scenario_task_eq)
qed

section \<open>The adapters\<close>

text \<open>
  Claim C5 as stated fails on the second half. An empty provider result, a provider that
  raises and a frame without the \<open>Volume\<close> column all make \<open>get_yahoo_finance_data\<close>
  return the same \<open>None\<close>, and the task the same \<open>False\<close>: the value carries no reason,
  so the outcome for no data cannot be told from the other two.
\<close>

theorem failure_kinds_distinguishable_counterexample:
  "get_yahoo_finance_data scenario_download (/) ln ''BADTICKER'' ''2023-01-01'' ''2024-01-01'' = None \<and>
   get_yahoo_finance_data failing_download (/) ln ''BADTICKER'' ''2023-01-01'' ''2024-01-01'' = None \<and>
   get_yahoo_finance_data short_download (/) ln ''BADTICKER'' ''2023-01-01'' ''2024-01-01'' = None \<and>
   collect_data_for_ticker (yahoo_fetch scenario_download (/) ln) scenario_to_csv
     ''BADTICKER'' ''2023-01-01'' ''2024-01-01'' = Inr False \<and>
   collect_data_for_ticker (yahoo_fetch failing_download (/) ln) scenario_to_csv
     ''BADTICKER'' ''2023-01-01'' ''2024-01-01'' = Inr False \<and>
   collect_data_for_ticker (yahoo_fetch short_download (/) ln) scenario_to_csv
     ''BADTICKER'' ''2023-01-01'' ''2024-01-01'' = Inr False"
proof -
  have a: "get_yahoo_finance_data scenario_download (/) ln ''BADTICKER'' ''2023-01-01'' ''2024-01-01'' = None"
    by (simp add: get_yahoo_finance_data_def yahoo_try_def then_do_def df_empty_def
        scenario_download_def)
  have b: "get_yahoo_finance_data failing_download (/) ln ''BADTICKER'' ''2023-01-01'' ''2024-01-01'' = None"
    by (simp add: get_yahoo_finance_data_def yahoo_try_def then_do_def failing_download_def)
  have c: "get_yahoo_finance_data short_download (/) ln ''BADTICKER'' ''2023-01-01'' ''2024-01-01'' = None"
    by (simp add: get_yahoo_finance_data_def yahoo_try_def then_do_def df_empty_def
        reset_index_def labels_def expected_columns_def short_download_def scenario_frame_def)
  from a b c show ?thesis
    by (simp add: collect_data_for_ticker_eq yahoo_fetch_def)
qed

text \<open>
  Claim C5, amended. When the provider raises, returns an empty frame, or returns a frame
  that lacks an expected column after \<open>reset_index\<close>, \<open>get_yahoo_finance_data\<close> returns
  \<open>None\<close> and raises nothing, and \<open>collect_data_for_ticker\<close> on it returns \<open>False\<close>; the
  three kinds of failure share this one outcome.
\<close>

theorem failure_kinds_share_one_outcome:
  assumes "(\<exists>x. yf_download t s e = Inl x) \<or>
           (\<exists>data. yf_download t s e = Inr data \<and> df_empty data) \<or>
           (\<exists>data data1. yf_download t s e = Inr data \<and> reset_index data = Inr data1 \<and>
                          \<not> set expected_columns \<subseteq> set (labels data1))"
  shows "get_yahoo_finance_data yf_download fdiv flog t s e = None \<and>
         collect_data_for_ticker (yahoo_fetch yf_download fdiv flog) to_csv t s e = Inr False"
  using get_yahoo_finance_data_None [of yf_download t s e fdiv flog, OF assms]
  by (simp add: collect_data_for_ticker_eq yahoo_fetch_def)

theorem failure_kinds_share_one_outcome_witness:
  "get_yahoo_finance_data scenario_download (/) ln ''BADTICKER'' ''2023-01-01'' ''2024-01-01'' = None \<and>
   collect_data_for_ticker (yahoo_fetch scenario_download (/) ln) scenario_to_csv
     ''BADTICKER'' ''2023-01-01'' ''2024-01-01'' = Inr False"
proof -
  have "\<exists>data. scenario_download ''BADTICKER'' ''2023-01-01'' ''2024-01-01'' = Inr data \<and> df_empty data"
    by (simp add: scenario_download_def df_empty_def)
  then show ?thesis
    using failure_kinds_share_one_outcome [of scenario_download "''BADTICKER''" "''2023-01-01''"
        "''2024-01-01''" "(/)" ln scenario_to_csv]
    by blast
qed

text \<open>
  Claim C6. Whenever \<open>get_yahoo_finance_data\<close> returns a frame, the frame has a \<open>CLOSE\<close>
  and a \<open>LOG_RETURNS\<close> column of the same length; the log return of the first row is
  missing (NaN), and the log return of every later row \<open>t\<close> is the logarithm of
  \<open>close t / close (t - 1)\<close>, where \<open>/\<close> and the logarithm are the operations the
  source applies (a missing close gives a missing log return).
\<close>

theorem log_return_of_row:
  assumes "get_yahoo_finance_data yf_download fdiv flog ticker s e = Some out"
  shows "\<exists>close lr.
           map_of out ''CLOSE'' = Some close \<and> map_of out ''LOG_RETURNS'' = Some lr \<and>
           length lr = length close \<and>
           (close \<noteq> [] \<longrightarrow> lr ! 0 = None) \<and>
           (\<forall>t. 0 < t \<and> t < length close \<longrightarrow>
                lr ! t = map_option flog (cell_div fdiv (close ! t) (close ! (t - 1)))) \<and>
           (\<forall>t a b. 0 < t \<and> t < length close \<and> close ! t = Some a \<and> close ! (t - 1) = Some b \<longrightarrow>
                lr ! t = Some (flog (fdiv a b)))"
proof -
  obtain d o' h l c v where
    out: "out = [(''DATE'', d), (''OPEN'', o'), (''HIGH'', h), (''LOW'', l), (''CLOSE'', c),
                 (''VOLUME'', v), (''LOG_RETURNS'', log_returns fdiv flog c)]"
    using get_yahoo_finance_data_Some [OF assms] by (elim exE)
  have c: "map_of out ''CLOSE'' = Some c"
    by (simp add: out)
  have lr: "map_of out ''LOG_RETURNS'' = Some (log_returns fdiv flog c)"
    by (simp add: out)
  have first: "c \<noteq> [] \<longrightarrow> log_returns fdiv flog c ! 0 = None"
    by (simp add: log_returns_nth)
  have later: "\<forall>t. 0 < t \<and> t < length c \<longrightarrow>
      log_returns fdiv flog c ! t = map_option flog (cell_div fdiv (c ! t) (c ! (t - 1)))"
    by (simp add: log_returns_nth)
  then have present: "\<forall>t a b. 0 < t \<and> t < length c \<and> c ! t = Some a \<and> c ! (t - 1) = Some b \<longrightarrow>
      log_returns fdiv flog c ! t = Some (flog (fdiv a b))"
    by simp
  from c lr first later present length_log_returns [of fdiv flog c]
  show ?thesis by (intro exI conjI)
qed

theorem log_return_of_row_witness:
  "\<exists>close lr.
     map_of scenario_yahoo_table ''CLOSE'' = Some close \<and>
     map_of scenario_yahoo_table ''LOG_RETURNS'' = Some lr \<and>
     close = [Some 100, Some 110, Some 99] \<and>
     lr = [None, Some (ln (110 / 100)), Some (ln (99 / 110))] \<and>
     lr ! 0 = None \<and>
     lr ! 1 = map_option ln (cell_div (/) (close ! 1) (close ! 0)) \<and>
     lr ! 2 = Some (ln (99 / 110))"
  using log_return_of_row [OF scenario_AAPL]
  by (simp add: scenario_yahoo_table_def)

text \<open>
  Claim C7 as stated fails: for the same ticker the Yahoo Finance adapter and the Polygon
  adapter return frames whose column names differ.
\<close>

theorem adapter_schemas_differ_counterexample:
  "get_yahoo_finance_data scenario_download (/) ln ''AAPL'' ''2023-01-01'' ''2024-01-01'' =
     Some scenario_yahoo_table \<and>
   get_polygon_data scenario_requests_get scenario_to_datetime
     ''AAPL'' ''2023-01-01'' ''2024-01-01'' ''key'' 1 ''day'' = Some scenario_polygon_frame \<and>
   labels scenario_yahoo_table =
     [''DATE'', ''OPEN'', ''HIGH'', ''LOW'', ''CLOSE'', ''VOLUME'', ''LOG_RETURNS''] \<and>
   labels (columns scenario_polygon_frame) = [''Open'', ''High'', ''Low'', ''Close'', ''Volume''] \<and>
   labels scenario_yahoo_table \<noteq> labels (columns scenario_polygon_frame)"
  using scenario_AAPL scenario_polygon_AAPL
  by (simp add: labels_def scenario_yahoo_table_def scenario_polygon_frame_def)

text \<open>
  Claim C7, amended. Each adapter has a fixed schema of its own. A frame returned by
  \<open>get_yahoo_finance_data\<close> has exactly the columns \<open>DATE\<close>, \<open>OPEN\<close>, \<open>HIGH\<close>, \<open>LOW\<close>,
  \<open>CLOSE\<close>, \<open>VOLUME\<close>, \<open>LOG_RETURNS\<close>, in this order. A frame returned by
  \<open>get_polygon_data\<close> is indexed by \<open>Timestamp\<close>, and its column names, adjacent repeats
  removed, are \<open>Open\<close>, \<open>High\<close>, \<open>Low\<close>, \<open>Close\<close>, \<open>Volume\<close>, in this order; they are
  exactly these five, each once, whenever no key of the items of the payload is itself
  one of the five names (a payload with both \<open>o\<close> and \<open>Open\<close> yields the column \<open>Open\<close>
  twice, see \<open>colliding_polygon_AAPL\<close>). The Polygon frame has no date column and no
  log-return column: the two adapters never return the same column names, and share
  none.
\<close>

theorem adapter_schemas:
  "(get_yahoo_finance_data yf_download fdiv flog ticker s e = Some y \<longrightarrow> labels y = yahoo_schema) \<and>
   (get_polygon_data requests_get to_datetime ticker s e key m ts = Some p \<longrightarrow>
      index_name p = Some ''Timestamp'' \<and> remdups_adj (labels (columns p)) = polygon_schema) \<and>
   (get_polygon_data requests_get to_datetime ticker s e key m ts = Some p \<and>
    requests_get ticker s e key m ts = Inr response \<and>
    json_body response = Some (Object st (Some rows)) \<and>
    set (concat (map (map fst) rows)) \<inter> set polygon_schema = {} \<longrightarrow>
      labels (columns p) = polygon_schema) \<and>
   (get_yahoo_finance_data yf_download fdiv flog ticker s e = Some y \<and>
    get_polygon_data requests_get to_datetime ticker s e key m ts = Some p \<longrightarrow>
      labels y \<noteq> labels (columns p) \<and> set (labels y) \<inter> set (labels (columns p)) = {})"
proof -
  have dis: "labels y \<noteq> labels (columns p) \<and> set (labels y) \<inter> set (labels (columns p)) = {}"
    if y: "labels y = yahoo_schema" and p: "remdups_adj (labels (columns p)) = polygon_schema"
  proof -
    have "set (labels (columns p)) = set polygon_schema"
      using p by (metis remdups_adj_set)
    moreover have "set yahoo_schema \<inter> set polygon_schema = {}"
      by (simp add: yahoo_schema_def polygon_schema_def)
    moreover have "yahoo_schema \<noteq> []"
      by (simp add: yahoo_schema_def)
    ultimately show ?thesis
      using y by (metis inf.idem set_empty)
  qed
  show ?thesis
    using get_yahoo_finance_data_labels [of yf_download fdiv flog ticker s e y]
      get_polygon_data_Some [of requests_get to_datetime ticker s e key m ts p]
      get_polygon_data_exact [of requests_get to_datetime ticker s e key m ts p response st rows]
      dis
    by blast
qed

theorem adapter_schemas_witness:
  "labels scenario_yahoo_table = yahoo_schema \<and>
   index_name scenario_polygon_frame = Some ''Timestamp'' \<and>
   remdups_adj (labels (columns scenario_polygon_frame)) = polygon_schema \<and>
   labels (columns scenario_polygon_frame) = polygon_schema \<and>
   labels scenario_yahoo_table \<noteq> labels (columns scenario_polygon_frame)"
proof -
  obtain response st rows where
    rg: "scenario_requests_get ''AAPL'' ''2023-01-01'' ''2024-01-01'' ''key'' 1 ''day'' = Inr response" and
    jb: "json_body response = Some (Object st (Some rows))" and
    keys: "set (concat (map (map fst) rows)) \<inter> set polygon_schema = {}"
    by (simp add: scenario_requests_get_def polygon_schema_def)
  show ?thesis
    using adapter_schemas [of scenario_download "(/)" ln "''AAPL''" "''2023-01-01''" "''2024-01-01''"
        scenario_yahoo_table scenario_requests_get scenario_to_datetime "''key''" 1 "''day''"
        scenario_polygon_frame response st rows]
      scenario_AAPL scenario_polygon_AAPL rg jb keys
    by blast
qed

section \<open>The portfolio value\<close>

text \<open>
  Claim C10, evaluated on the code. The ledger has two trades in the order of their entry
  dates: the first is entered on day 1 and closed on day 10 with a P/L of 5, the second
  is entered on day 2 and closed on day 3 with a P/L of 7. For every float addition
  \<open>fadd\<close> and every initial capital \<open>c\<close> the function returns three points with three
  different dates, the first \<open>c\<close> on day 1; the total after both trades stands on day 3,
  and the last point, on day 10, is the capital after the first trade alone. With the
  initial capital 100 (all amounts and sums are small whole numbers, which float addition
  adds exactly) the last value is 105, where the claim has 100 + 5 + 7 = 112.
\<close>

theorem overlapping_trades_last_value:
  "calculate_portfolio_value fadd overlapping_ledger c =
     [(1, c), (3, fadd (fadd c 5) 7), (10, fadd c 5)] \<and>
   distinct (map fst (portfolio_points fadd overlapping_ledger c)) \<and>
   calculate_portfolio_value (+) overlapping_ledger 100 = [(1, 100), (3, 112), (10, 105)] \<and>
   foldl (+) 100 (map PL_dollars overlapping_ledger) = 112 \<and>
   snd (last (calculate_portfolio_value (+) overlapping_ledger 100)) \<noteq>
     foldl (+) 100 (map PL_dollars overlapping_ledger)"
proof -
  have g: "calculate_portfolio_value fadd overlapping_ledger c =
     [(1, c), (3, fadd (fadd c 5) 7), (10, fadd c 5)]" for fadd and c :: real
    by (simp add: calculate_portfolio_value_def portfolio_points_def overlapping_ledger_def Let_def)
  have d: "distinct (map fst (portfolio_points fadd overlapping_ledger c))"
    by (simp add: portfolio_points_def overlapping_ledger_def Let_def)
  have s: "foldl (+) 100 (map PL_dollars overlapping_ledger) = 112"
    by (simp add: overlapping_ledger_def)
  show ?thesis
    by (simp add: g d s)
qed

end
